theory Spec2Isabelle
  imports Complex_Main
begin

section \<open>Numbers and library functions of the host language\<close>

text \<open>
  The plugin computes with JavaScript numbers. A value of TypeScript type \<open>number\<close> is
  modelled by a real number, and arithmetic is exact, with one exception: the operations
  at which the rounding of IEEE-754 doubles changes what the program does, and not only
  the last digits of a result, are parameters of the model (\<open>Rounding\<close> below). Where
  a library function has no real result (the square root of a negative number, a date
  outside the calendar range) the model returns \<open>None\<close>, as the source returns NaN or
  raises. Infinities and signed zeros are outside the model.
\<close>

text \<open>
  \<open>subTurn\<close> is the evaluation of \<open>angle - 2 * Math.PI\<close> and \<open>addTurn\<close> that of
  \<open>angle + 2 * Math.PI\<close>: on a double of large magnitude a full turn is below half the
  spacing of neighbouring doubles and the result is the operand itself, and just below
  zero the sum rounds to \<open>2 * Math.PI\<close>. \<open>roundTerm\<close> takes the exact value of the
  haversine term of \<open>calculateDistance\<close> to the value the doubles give, which may lie
  a unit in the last place above 1.
\<close>

record Rounding =
  subTurn :: "real \<Rightarrow> real"
  addTurn :: "real \<Rightarrow> real"
  roundTerm :: "real \<Rightarrow> real"

definition exactArithmetic :: Rounding where
  "exactArithmetic =
     \<lparr>subTurn = (\<lambda>a. a - 2 * pi), addTurn = (\<lambda>a. a + 2 * pi), roundTerm = (\<lambda>a. a)\<rparr>"

definition truthy :: "real \<Rightarrow> bool" where
  \<comment> \<open>a number in a boolean position (\<open>x || y\<close>, \<open>x ? a : b\<close>, \<open>if (x)\<close>): zero is false\<close>
  "truthy x = (x \<noteq> 0)"

definition truthy_opt :: "real option \<Rightarrow> bool" where
  \<comment> \<open>an optional number in a boolean position: undefined is false\<close>
  "truthy_opt v = (case v of None \<Rightarrow> False | Some x \<Rightarrow> truthy x)"

definition trunc :: "real \<Rightarrow> int" where
  \<comment> \<open>rounding towards zero (ToIntegerOrInfinity)\<close>
  "trunc x = (if 0 \<le> x then \<lfloor>x\<rfloor> else \<lceil>x\<rceil>)"

definition js_rem :: "real \<Rightarrow> real \<Rightarrow> real" where
  \<comment> \<open>the \<open>%\<close> operator: the remainder takes the sign of the dividend\<close>
  "js_rem x m = x - m * of_int (trunc (x / m))"

definition atan2 :: "real \<Rightarrow> real \<Rightarrow> real" where
  \<comment> \<open>\<open>Math.atan2(y, x)\<close>\<close>
  "atan2 y x =
     (if 0 < x then arctan (y / x)
      else if x < 0 then (if 0 \<le> y then arctan (y / x) + pi else arctan (y / x) - pi)
      else if 0 < y then pi / 2
      else if y < 0 then - (pi / 2)
      else 0)"

definition math_round :: "real \<Rightarrow> int" where
  \<comment> \<open>\<open>Math.round\<close>: to the nearest integer, halves upwards\<close>
  "math_round x = \<lfloor>x + 1 / 2\<rfloor>"

definition math_sqrt :: "real \<Rightarrow> real option" where
  \<comment> \<open>\<open>Math.sqrt\<close>: NaN below zero\<close>
  "math_sqrt x = (if x < 0 then None else Some (sqrt x))"

definition math_pow :: "real \<Rightarrow> real \<Rightarrow> real option" where
  \<comment> \<open>\<open>Math.pow\<close> with a positive, fractional exponent: NaN for a negative base\<close>
  "math_pow x y = (if x < 0 then None else Some (x powr y))"

text \<open>
  A \<open>Date\<close> holds a whole number of milliseconds since the epoch, at most 8.64e15 in
  absolute value, or is invalid (\<open>None\<close>). An ISO-8601 string is represented by the
  instant it denotes; \<open>toISOString\<close> raises RangeError on an invalid date.
\<close>

type_synonym instant = int

definition newDate :: "real option \<Rightarrow> instant option" where
  \<comment> \<open>\<open>new Date(x)\<close> for a number x (NaN is \<open>None\<close>)\<close>
  "newDate v =
     (case v of None \<Rightarrow> None
      | Some x \<Rightarrow> if \<bar>x\<bar> > 8640000000000000 then None else Some (trunc x))"

text \<open>
  Untyped data (\<open>any\<close>): a number, NaN, a string that is not a date, or a string that
  denotes an instant. An object is a map from property names to values; an absent
  property (undefined) is \<open>None\<close>, and null is not told apart from it. Arithmetic on
  string operands is not modelled: it yields NaN here, as it does on undefined.
\<close>

datatype Value = Num real | NaN | Str string | Iso instant

type_synonym JSObject = "string \<Rightarrow> Value option"

definition truthyV :: "Value option \<Rightarrow> bool" where
  "truthyV v =
     (case v of None \<Rightarrow> False | Some (Num x) \<Rightarrow> x \<noteq> 0 | Some NaN \<Rightarrow> False
      | Some (Str s) \<Rightarrow> s \<noteq> [] | Some (Iso t) \<Rightarrow> True)"

definition numOf :: "Value option \<Rightarrow> real option" where
  \<comment> \<open>the operand of an arithmetic operator or comparison; \<open>None\<close> is NaN\<close>
  "numOf v = (case v of Some (Num x) \<Rightarrow> Some x | _ \<Rightarrow> None)"

definition arith :: "(real \<Rightarrow> real) \<Rightarrow> Value option \<Rightarrow> Value" where
  "arith f v = (case numOf v of Some x \<Rightarrow> Num (f x) | None \<Rightarrow> NaN)"

definition getTime :: "Value option \<Rightarrow> instant option" where
  \<comment> \<open>\<open>new Date(v).getTime()\<close>; \<open>None\<close> is NaN\<close>
  "getTime v =
     (case v of Some (Iso t) \<Rightarrow> Some t | Some (Num x) \<Rightarrow> newDate (Some x) | _ \<Rightarrow> None)"

definition js_slice0 :: "'a list \<Rightarrow> real \<Rightarrow> 'a list" where
  \<comment> \<open>\<open>xs.slice(0, n)\<close>: a negative end counts from the end of the array\<close>
  "js_slice0 xs n =
     (let k = trunc n
      in if k < 0 then take (nat (int (length xs) + k)) xs else take (nat k) xs)"

section \<open>Wind calculations (windCalculations.ts)\<close>

text \<open>
  The fields of class \<open>WindCalculations\<close> that the calculations read. The host
  application handle and the vessel name only feed the source tag of the output.
  \<open>airTemp\<close> and \<open>humidity\<close> have one writer, \<open>updateNavigationData\<close>, on the two
  paths under \<open>environment.outside.tempest.observations\<close> that the plugin subscribes
  to; these are paths the plugin itself publishes, in Kelvin and as a ratio.
\<close>

record WindCalculations =
  headingTrue :: real
  headingMagnetic :: real
  courseOverGroundMagnetic :: "real option"
  speedOverGround :: real
  airTemp :: real
  humidity :: real
  anchorSet :: bool
  anchorApparentBearing :: real

text \<open>
  The fields of \<open>WindInput\<close> carry the prefix \<open>wi\<close>, since \<open>ApparentWindData\<close> has
  fields of the same names. An absent \<open>airTemperature\<close> is \<open>None\<close>.
\<close>

record WindInput =
  wi_windSpeed :: real
  wi_windDirection :: real
  wi_airTemperature :: "real option"

record ApparentWindData =
  windSpeed :: real
  windAngleRelative :: real
  windAngleRelativeRad :: real
  apparentTrueDeg :: real
  apparentMagneticDeg :: real
  apparentTrueRad :: real
  apparentMagneticRad :: real
  airTemperature :: real

text \<open>The result of the derivation, without its timestamp and source tag.\<close>

record DerivedWindValues =
  speedApparent :: real
  angleApparent :: real
  angleTrueGround :: real
  angleTrueWater :: real
  directionTrue :: real
  directionMagnetic :: real
  speedTrue :: real
  windChill :: "real option"
  heatIndex :: "real option"
  feelsLike :: real

definition initialWindCalculations :: WindCalculations where
  "initialWindCalculations =
     \<lparr>headingTrue = 0, headingMagnetic = 0, courseOverGroundMagnetic = None,
      speedOverGround = 0, airTemp = 0, humidity = 0, anchorSet = False,
      anchorApparentBearing = 0\<rparr>"

definition degToRad :: "real \<Rightarrow> real" where
  "degToRad deg = (deg * pi) / 180"

definition radToDeg :: "real \<Rightarrow> real" where
  "radToDeg rad = (rad * 180) / pi"

text \<open>
  \<open>normalizeAngle\<close> is two loops, one after the other: the first subtracts a full
  turn while the angle is above \<open>\<pi>\<close>, the second adds one while it is below \<open>-\<pi>\<close>.
  Neither has a bound on its iterations; \<open>None\<close> is a loop that never ends.
\<close>

partial_function (option) normalizeDown :: "Rounding \<Rightarrow> real \<Rightarrow> real option" where
  "normalizeDown fl angle =
     (if angle > pi then normalizeDown fl (subTurn fl angle) else Some angle)"

partial_function (option) normalizeUp :: "Rounding \<Rightarrow> real \<Rightarrow> real option" where
  "normalizeUp fl angle =
     (if angle < - pi then normalizeUp fl (addTurn fl angle) else Some angle)"

definition normalizeAngle :: "Rounding \<Rightarrow> real \<Rightarrow> real option" where
  "normalizeAngle fl angle =
     (case normalizeDown fl angle of None \<Rightarrow> None | Some a \<Rightarrow> normalizeUp fl a)"

definition toCompassBearing :: "Rounding \<Rightarrow> real \<Rightarrow> real" where
  "toCompassBearing fl radians = (if radians < 0 then addTurn fl radians else radians)"

text \<open>
  Two properties of a rounding, as hypotheses of statements about the loops.
  \<open>turnsRegister fl B d\<close>: on angles of magnitude at most \<open>B\<close>, taking a full turn off
  an angle above \<open>\<pi>\<close> lowers it by at least \<open>d\<close> and not below \<open>-\<pi>\<close>, and adding one
  to an angle below \<open>-\<pi>\<close> raises it by at least \<open>d\<close> and not above \<open>\<pi>\<close>. Doubles have
  this property for a bound far above any heading or bearing (up to \<open>2^50\<close> the error of
  one subtraction is below 1/8), and for no bound beyond \<open>2^56\<close>.
  \<open>bearingRounds fl\<close>: a full turn added to an angle in \<open>(-\<pi>, 0)\<close> lands in
  \<open>[0, 2\<pi>]\<close>.
\<close>

definition turnsRegister :: "Rounding \<Rightarrow> real \<Rightarrow> real \<Rightarrow> bool" where
  "turnsRegister fl B d \<longleftrightarrow>
     0 < d
     \<and> (\<forall>x. pi < x \<and> x \<le> B \<longrightarrow> subTurn fl x \<le> x - d \<and> - pi \<le> subTurn fl x)
     \<and> (\<forall>x. - B \<le> x \<and> x < - pi \<longrightarrow> x + d \<le> addTurn fl x \<and> addTurn fl x \<le> pi)"

definition bearingRounds :: "Rounding \<Rightarrow> bool" where
  "bearingRounds fl \<longleftrightarrow>
     (\<forall>r. - pi < r \<and> r < 0 \<longrightarrow> 0 \<le> addTurn fl r \<and> addTurn fl r \<le> 2 * pi)"

definition updateNavigationData :: "WindCalculations \<Rightarrow> string \<Rightarrow> real \<Rightarrow> WindCalculations" where
  "updateNavigationData st path v =
     (if path = ''navigation.headingTrue'' then st\<lparr>headingTrue := v\<rparr>
      else if path = ''navigation.headingMagnetic'' then st\<lparr>headingMagnetic := v\<rparr>
      else if path = ''navigation.courseOverGroundMagnetic''
      then st\<lparr>courseOverGroundMagnetic := Some v\<rparr>
      else if path = ''navigation.speedOverGround'' then st\<lparr>speedOverGround := v\<rparr>
      else if path = ''environment.outside.tempest.observations.airTemperature''
      then st\<lparr>airTemp := v\<rparr>
      else if path = ''environment.outside.tempest.observations.relativeHumidity''
      then st\<lparr>humidity := v\<rparr>
      else st)"

definition calculateApparentWind :: "WindCalculations \<Rightarrow> WindInput \<Rightarrow> ApparentWindData" where
  "calculateApparentWind st windData =
     (let headingTrueDeg = radToDeg (headingTrue st);
          headingMagneticDeg = radToDeg (headingMagnetic st);
          aTrueDeg = js_rem (headingTrueDeg + wi_windDirection windData) 360;
          aMagneticDeg = js_rem (headingMagneticDeg + wi_windDirection windData) 360
      in \<lparr>windSpeed = wi_windSpeed windData,
          windAngleRelative = wi_windDirection windData,
          windAngleRelativeRad = degToRad (wi_windDirection windData),
          apparentTrueDeg = aTrueDeg,
          apparentMagneticDeg = aMagneticDeg,
          apparentTrueRad = degToRad aTrueDeg,
          apparentMagneticRad = degToRad aMagneticDeg,
          airTemperature =
            (if truthy_opt (wi_airTemperature windData)
             then the (wi_airTemperature windData) else airTemp st)\<rparr>)"

definition effectiveHeadingTrueRad :: "WindCalculations \<Rightarrow> real" where
  "effectiveHeadingTrueRad st = (if anchorSet st then anchorApparentBearing st else headingTrue st)"

definition effectiveHeadingMagneticRad :: "WindCalculations \<Rightarrow> real" where
  "effectiveHeadingMagneticRad st =
     (if anchorSet st then anchorApparentBearing st else headingMagnetic st)"

definition effectiveSOG :: "WindCalculations \<Rightarrow> real" where
  "effectiveSOG st = (if anchorSet st then 0 else speedOverGround st)"

definition windChillC :: "real \<Rightarrow> real \<Rightarrow> real" where
  "windChillC airTempC windSpeedKmh =
     13.12 + 0.6215 * airTempC - 11.37 * (windSpeedKmh powr 0.16)
       + 0.3965 * airTempC * (windSpeedKmh powr 0.16)"

definition heatIndexF :: "real \<Rightarrow> real \<Rightarrow> real" where
  "heatIndexF T R =
     - 42.379 + 2.04901523 * T + 10.14333127 * R - 0.22475541 * T * R
       - 0.00683783 * T * T - 0.05481717 * R * R + 0.00122874 * T * T * R
       + 0.00085282 * T * R * R - 0.00000199 * T * T * R * R"

text \<open>
  \<open>calculateDerivedWindValues\<close>, in the order of the source. It calls
  \<open>normalizeAngle\<close> three times and returns nothing when one of the calls never ends.
\<close>

definition calculateDerivedWindValues :: "Rounding \<Rightarrow> WindCalculations \<Rightarrow> ApparentWindData \<Rightarrow> DerivedWindValues option" where
  "calculateDerivedWindValues fl st aw =
     (let hT = effectiveHeadingTrueRad st;
          hM = effectiveHeadingMagneticRad st
      in case normalizeAngle fl
                (if truthy (windAngleRelativeRad aw) then windAngleRelativeRad aw
                 else apparentTrueRad aw - hT) of
           None \<Rightarrow> None
         | Some angleApp \<Rightarrow>
        (let sog = effectiveSOG st;
             Vx = sog * cos hT;
             Vy = sog * sin hT;
             Ax = windSpeed aw * cos (apparentTrueRad aw);
             Ay = windSpeed aw * sin (apparentTrueRad aw);
             Wx = Ax + Vx;
             Wy = Ay + Vy;
             trueWindSpeed = sqrt (Wx * Wx + Wy * Wy);
             rawTrueDirection = atan2 Wy Wx;
             trueWindDirTrueRad = toCompassBearing fl rawTrueDirection
         in case normalizeAngle fl (trueWindDirTrueRad - hT) of
              None \<Rightarrow> None
            | Some angleTG \<Rightarrow>
           (let VxMag = sog * cos hM;
                VyMag = sog * sin hM;
                AxMag = windSpeed aw * cos (apparentMagneticRad aw);
                AyMag = windSpeed aw * sin (apparentMagneticRad aw);
                WxMag = AxMag + VxMag;
                WyMag = AyMag + VyMag;
                rawMagneticDirection = atan2 WyMag WxMag;
                trueWindDirMagRad = toCompassBearing fl rawMagneticDirection
            in case normalizeAngle fl (trueWindDirMagRad - hM) of
                 None \<Rightarrow> None
               | Some angleTW \<Rightarrow>
              (let airTempC = airTemp st;
                   windSpeedKmh = trueWindSpeed * 3.6;
                   windChillK =
                     (if airTempC \<le> 10 \<and> windSpeedKmh > 4.8
                      then Some (windChillC airTempC windSpeedKmh + 273.15) else None);
                   airTempF = (airTempC * 9) / 5 + 32;
                   heatIndexK =
                     (if airTempF \<ge> 80 \<and> humidity st \<ge> 40
                      then Some (((heatIndexF airTempF (humidity st) - 32) * 5) / 9 + 273.15)
                      else None);
                   feelsLikeK =
                     (if windChillK \<noteq> None \<and> airTempC \<le> 10 then the windChillK
                      else if heatIndexK \<noteq> None \<and> airTempC \<ge> 27 then the heatIndexK
                      else airTemp st)
               in Some \<lparr>speedApparent = windSpeed aw,
                        angleApparent = angleApp,
                        angleTrueGround = angleTG,
                        angleTrueWater = angleTW,
                        directionTrue = trueWindDirTrueRad,
                        directionMagnetic = trueWindDirMagRad,
                        speedTrue = trueWindSpeed,
                        windChill = windChillK,
                        heatIndex = heatIndexK,
                        feelsLike = feelsLikeK\<rparr>))))"

section \<open>The plugin: unit conversion\<close>

definition lowerCaseLetters :: string where
  "lowerCaseLetters = ''abcdefghijklmnopqrstuvwxyz''"

definition upperCaseLetters :: string where
  "upperCaseLetters = ''ABCDEFGHIJKLMNOPQRSTUVWXYZ''"

definition isLowerOrDigit :: "char \<Rightarrow> bool" where
  \<comment> \<open>the character class \<open>[a-z0-9]\<close>\<close>
  "isLowerOrDigit c = (c \<in> set (lowerCaseLetters @ ''0123456789''))"

definition toUpperCase :: "char \<Rightarrow> char" where
  "toUpperCase c =
     (case map_of (zip lowerCaseLetters upperCaseLetters) c of Some u \<Rightarrow> u | None \<Rightarrow> c)"

definition toLowerCase :: "char \<Rightarrow> char" where
  "toLowerCase c =
     (case map_of (zip upperCaseLetters lowerCaseLetters) c of Some l \<Rightarrow> l | None \<Rightarrow> c)"

text \<open>\<open>str.replace(/_([a-z0-9])/g, letter.toUpperCase())\<close>, scanning from the left.\<close>

fun snakeToCamel :: "string \<Rightarrow> string" where
  "snakeToCamel (c # d # cs) =
     (if c = CHR ''_'' \<and> isLowerOrDigit d then toUpperCase d # snakeToCamel cs
      else c # snakeToCamel (d # cs))"
| "snakeToCamel cs = cs"

text \<open>\<open>ConvertedValue\<close>, with fields \<open>value\<close> and \<open>units\<close>.\<close>

record ConvertedValue =
  cv_value :: "Value option"
  cv_units :: "string option"

definition temperatureFields :: "string list" where
  "temperatureFields =
     [''airTemperature'', ''feelsLike'', ''heatIndex'', ''windChill'', ''dewPoint'',
      ''wetBulbTemperature'', ''wetBulbGlobeTemperature'']"

definition pressureFields :: "string list" where
  "pressureFields = [''stationPressure'', ''pressure'']"

definition convertToSignalKUnits :: "string \<Rightarrow> Value option \<Rightarrow> ConvertedValue" where
  "convertToSignalKUnits key v =
     (if v = None then \<lparr>cv_value = v, cv_units = None\<rparr>
      else
        (let normalizedKey = snakeToCamel key
         in if normalizedKey \<in> set temperatureFields
            then \<lparr>cv_value = Some (arith (\<lambda>x. x + 273.15) v), cv_units = Some ''K''\<rparr>
            else if normalizedKey \<in> set pressureFields
            then \<lparr>cv_value = Some (arith (\<lambda>x. x * 100) v), cv_units = Some ''Pa''\<rparr>
            else if normalizedKey = ''windDirection''
            then \<lparr>cv_value = Some (arith (\<lambda>x. x * (pi / 180)) v), cv_units = Some ''rad''\<rparr>
            else if normalizedKey \<in> set [''lightningStrikeAvgDistance'', ''strikeLastDist'']
            then \<lparr>cv_value = Some (arith (\<lambda>x. x * 1000) v), cv_units = Some ''m''\<rparr>
            else if normalizedKey = ''reportInterval''
            then \<lparr>cv_value = Some (arith (\<lambda>x. x * 60) v), cv_units = Some ''s''\<rparr>
            else if normalizedKey \<in> set [''rainAccumulated'', ''rainAccumulatedFinal'',
                ''localDailyRainAccumulation'', ''localDailyRainAccumulationFinal'',
                ''precipTotal1h'', ''precipAccumLocalYesterday'',
                ''precipAccumLocalYesterdayFinal'']
            then \<lparr>cv_value = Some (arith (\<lambda>x. x / 1000) v), cv_units = Some ''m''\<rparr>
            else if normalizedKey = ''relativeHumidity''
            then \<lparr>cv_value = Some (arith (\<lambda>x. x / 100) v), cv_units = Some ''ratio''\<rparr>
            else if normalizedKey \<in> set [''windLull'', ''windAvg'', ''windGust'', ''windSpeed'']
            then \<lparr>cv_value = v, cv_units = Some ''m/s''\<rparr>
            else if normalizedKey \<in> set [''windSampleInterval'', ''timeEpoch'', ''strikeLastEpoch'',
                ''precipMinutesLocalDay'', ''precipMinutesLocalYesterday'']
            then \<lparr>cv_value = v, cv_units = Some ''s''\<rparr>
            else if normalizedKey = ''illuminance''
            then \<lparr>cv_value = v, cv_units = Some ''lux''\<rparr>
            else if normalizedKey = ''solarRadiation''
            then \<lparr>cv_value = v, cv_units = Some ''W/m2''\<rparr>
            else if normalizedKey = ''battery''
            then \<lparr>cv_value = v, cv_units = Some ''V''\<rparr>
            else if normalizedKey = ''airDensity''
            then \<lparr>cv_value = v, cv_units = Some ''kg/m3''\<rparr>
            else if normalizedKey = ''deltaT''
            then \<lparr>cv_value = v, cv_units = Some ''K''\<rparr>
            else \<lparr>cv_value = v, cv_units = None\<rparr>))"

section \<open>The plugin: cached state and the weather provider\<close>

text \<open>
  The declarations of \<open>Position\<close>, \<open>WeatherReqParams\<close>, \<open>WeatherData\<close> and
  \<open>WeatherWarning\<close> are not among the sources; their fields are the ones the provider
  reads and writes. The sub-objects \<open>outside\<close> and \<open>wind\<close> of a \<open>WeatherData\<close> are
  lists of properties in the order the source writes them; its field \<open>type\<close> is
  \<open>wtype\<close> here, and that of a \<open>WeatherWarning\<close> is \<open>warningType\<close>. The description
  of a warning is a template string, kept as the list of its pieces.
\<close>

record Position =
  latitude :: real
  longitude :: real

datatype WeatherForecastType = Point | Daily

record WeatherReqParams =
  maxCount :: "real option"
  startDate :: "Value option"

record WeatherData =
  date :: Value
  wtype :: string
  description :: Value
  outside :: "(string \<times> Value option) list option"
  wind :: "(string \<times> Value option) list option"
  sun :: "(Value \<times> Value) option"

datatype Piece = Lit string | Shown Value | ShownInt int

record WeatherWarning =
  startTime :: instant
  endTime :: instant
  details :: "Piece list"
  source :: string
  warningType :: string

record ForecastLists =
  hourly :: "JSObject list option"
  daily :: "JSObject list option"

record ForecastData =
  current_conditions :: "JSObject option"
  forecast :: "ForecastLists option"

text \<open>
  The part of \<open>PluginState\<close> behind the provider. \<open>latestObservations\<close> is a
  \<open>Map\<close>, iterated in insertion order.
\<close>

record PluginState =
  latestObservations :: "(string \<times> JSObject) list"
  latestForecastData :: "ForecastData option"
  stationLocation :: "Position option"
  currentVesselPosition :: "Position option"

definition initialState :: PluginState where
  "initialState =
     \<lparr>latestObservations = [], latestForecastData = None, stationLocation = None,
      currentVesselPosition = None\<rparr>"

fun mapSet :: "string \<Rightarrow> 'v \<Rightarrow> (string \<times> 'v) list \<Rightarrow> (string \<times> 'v) list" where
  "mapSet k v [] = [(k, v)]"
| "mapSet k v ((k', v') # rest) = (if k' = k then (k, v) # rest else (k', v') # mapSet k v rest)"

definition cacheObservationData :: "PluginState \<Rightarrow> string \<Rightarrow> JSObject \<Rightarrow> instant \<Rightarrow> PluginState" where
  \<comment> \<open>the last argument is the clock reading of \<open>new Date()\<close>\<close>
  "cacheObservationData st type data now =
     st\<lparr>latestObservations :=
          mapSet type (data(''timestamp'' \<mapsto> Iso now)) (latestObservations st)\<rparr>"

definition cacheForecastData :: "PluginState \<Rightarrow> ForecastData \<Rightarrow> PluginState" where
  "cacheForecastData st data = st\<lparr>latestForecastData := Some data\<rparr>"

definition mapPrecipitationType :: "Value option \<Rightarrow> string" where
  "mapPrecipitationType precipType =
     (case precipType of
        Some (Str s) \<Rightarrow>
          (let l = map toLowerCase s
           in if l = ''rain'' then ''rain'' else if l = ''snow'' then ''snow''
              else if l = ''thunderstorm'' then ''thunderstorm'' else ''not available'')
      | Some (Iso t) \<Rightarrow> ''not available''
      | Some (Num x) \<Rightarrow>
          (if x = 0 then ''not available'' else if x = 1 then ''rain''
           else if x = 2 then ''snow'' else if x = 3 then ''mixed/ice'' else ''not available'')
      | _ \<Rightarrow> ''not available'')"

definition mapPressureTendency :: "Value option \<Rightarrow> string" where
  "mapPressureTendency pressureTrend =
     (if pressureTrend = Some (Str ''falling'') then ''decreasing''
      else if pressureTrend = Some (Str ''rising'') then ''increasing''
      else ''steady'')"

definition calculateWetBulbTemperature :: "Value option \<Rightarrow> Value option \<Rightarrow> Value option" where
  "calculateWetBulbTemperature tempC relativeHumidity =
     (if tempC = None \<or> relativeHumidity = None then None
      else
        (case (numOf tempC, numOf relativeHumidity) of
           (Some t, Some r) \<Rightarrow>
             (let rh = r / 100
              in case (math_sqrt (rh + 8.313659), math_pow rh 1.5) of
                   (Some s, Some p) \<Rightarrow>
                     Some (Num (t * arctan (0.151977 * s) + arctan (t + rh)
                         - arctan (rh - 1.676331) + 0.00391838 * p * arctan (0.023101 * rh)
                         - 4.686035 + 273.15))
                 | _ \<Rightarrow> Some NaN)
         | _ \<Rightarrow> Some NaN))"

definition orElse :: "Value option \<Rightarrow> Value \<Rightarrow> Value" where
  \<comment> \<open>\<open>a || b\<close>\<close>
  "orElse a b = (if truthyV a then the a else b)"

definition cond :: "Value option \<Rightarrow> Value \<Rightarrow> Value option" where
  \<comment> \<open>\<open>c ? v : undefined\<close>\<close>
  "cond c v = (if truthyV c then Some v else None)"

text \<open>
  \<open>convertObservationToWeatherAPI\<close>; the third argument is the reading of
  \<open>Date.now()\<close>. \<open>None\<close>: \<open>toISOString\<close> raised RangeError.
\<close>

definition convertObservationToWeatherAPI :: "string \<Rightarrow> JSObject \<Rightarrow> instant \<Rightarrow> WeatherData option" where
  "convertObservationToWeatherAPI observationType data now =
     (let dateV =
            (if truthyV (data ''utcDate'') then data ''utcDate''
             else map_option Iso
               (newDate (if truthyV (data ''time'')
                         then map_option (\<lambda>x. x * 1000) (numOf (data ''time''))
                         else Some (of_int now))));
          outside1 =
            (if observationType = ''currentConditions'' then
               Some [(''temperature'', Some (arith (\<lambda>x. x + 273.15) (data ''air_temperature''))),
                     (''pressure'',
                        Some (if truthyV (data ''sea_level_pressure'')
                              then arith (\<lambda>x. x * 100) (data ''sea_level_pressure'')
                              else arith (\<lambda>x. x * 100) (data ''station_pressure''))),
                     (''relativeHumidity'', Some (arith (\<lambda>x. x / 100) (data ''relative_humidity''))),
                     (''feelsLikeTemperature'', Some (arith (\<lambda>x. x + 273.15) (data ''feels_like''))),
                     (''dewPointTemperature'', Some (arith (\<lambda>x. x + 273.15) (data ''dew_point''))),
                     (''uvIndex'', data ''uv''),
                     (''precipitationVolume'', Some (Num 0)),
                     (''pressureTendency'', Some (Str (mapPressureTendency (data ''pressure_trend'')))),
                     (''solarRadiation'', data ''solar_radiation''),
                     (''airDensity'', data ''air_density''),
                     (''wetBulbTemperature'',
                        cond (data ''wet_bulb_temperature'')
                          (arith (\<lambda>x. x + 273.15) (data ''wet_bulb_temperature''))),
                     (''wetBulbGlobeTemperature'',
                        cond (data ''wet_bulb_globe_temperature'')
                          (arith (\<lambda>x. x + 273.15) (data ''wet_bulb_globe_temperature''))),
                     (''deltaT'', data ''delta_t'')]
             else if observationType = ''tempest'' then
               Some [(''temperature'', data ''airTemperature''),
                     (''pressure'', data ''stationPressure''),
                     (''relativeHumidity'', data ''relativeHumidity''),
                     (''uvIndex'', data ''uvIndex''),
                     (''precipitationVolume'', data ''rainAccumulated''),
                     (''precipitationType'',
                        Some (Str (mapPrecipitationType (data ''precipitationType'')))),
                     (''solarRadiation'', data ''solarRadiation''),
                     (''illuminance'', data ''illuminance'')]
             else None);
          wind1 =
            (if observationType = ''currentConditions'' then
               Some [(''speedTrue'', data ''wind_avg''),
                     (''directionTrue'', Some (arith (\<lambda>x. (x * pi) / 180) (data ''wind_direction''))),
                     (''gust'', data ''wind_gust''),
                     (''averageSpeed'', data ''wind_avg''),
                     (''directionCardinal'', data ''wind_direction_cardinal'')]
             else if observationType = ''tempest'' then
               Some [(''speedTrue'', data ''windAvg''),
                     (''directionTrue'', data ''windDirection''),
                     (''gust'', data ''windGust''),
                     (''averageSpeed'', data ''windAvg'')]
             else None);
          wind2 =
            (if observationType = ''rapidWind'' then
               Some [(''speedTrue'', data ''windSpeed''),
                     (''directionTrue'', data ''windDirection'')]
             else wind1);
          outside2 =
            (if observationType \<noteq> ''rapidWind'' \<and> observationType = ''air'' then
               Some [(''temperature'', data ''airTemperature''),
                     (''pressure'', data ''stationPressure''),
                     (''relativeHumidity'', data ''relativeHumidity'')]
             else outside1)
      in case dateV of
           None \<Rightarrow> None
         | Some d \<Rightarrow>
             Some \<lparr>date = d, wtype = ''observation'',
                   description =
                     orElse (data ''conditions'')
                       (Str (''WeatherFlow '' @ observationType @ '' observation'')),
                   outside = outside2, wind = wind2, sun = None\<rparr>)"

definition forecastTypeName :: "WeatherForecastType \<Rightarrow> string" where
  "forecastTypeName t = (case t of Point \<Rightarrow> ''point'' | Daily \<Rightarrow> ''daily'')"

text \<open>\<open>convertForecastToWeatherAPI\<close>. \<open>None\<close>: \<open>toISOString\<close> raised RangeError.\<close>

definition convertForecastToWeatherAPI :: "JSObject \<Rightarrow> WeatherForecastType \<Rightarrow> WeatherData option" where
  "convertForecastToWeatherAPI fc type =
     (let dateV =
            (if truthyV (fc ''datetime'') then fc ''datetime''
             else map_option Iso (newDate (map_option (\<lambda>x. x * 1000) (numOf (fc ''time'')))));
          out =
            (case type of
               Point \<Rightarrow>
                 [(''temperature'',
                     if fc ''air_temperature'' \<noteq> None
                     then Some (arith (\<lambda>x. x + 273.15) (fc ''air_temperature'')) else None),
                  (''feelsLikeTemperature'',
                     if fc ''feels_like'' \<noteq> None
                     then Some (arith (\<lambda>x. x + 273.15) (fc ''feels_like'')) else None),
                  (''relativeHumidity'',
                     cond (fc ''relative_humidity'') (arith (\<lambda>x. x / 100) (fc ''relative_humidity''))),
                  (''precipitationVolume'',
                     cond (fc ''precip'') (arith (\<lambda>x. x / 1000) (fc ''precip''))),
                  (''pressure'',
                     if truthyV (fc ''sea_level_pressure'')
                     then Some (arith (\<lambda>x. x * 100) (fc ''sea_level_pressure''))
                     else cond (fc ''station_pressure'')
                            (arith (\<lambda>x. x * 100) (fc ''station_pressure''))),
                  (''uvIndex'', fc ''uv''),
                  (''wetBulbTemperature'',
                     calculateWetBulbTemperature (fc ''air_temperature'') (fc ''relative_humidity'')),
                  (''precipitationProbability'',
                     cond (fc ''precip_probability'')
                       (arith (\<lambda>x. x / 100) (fc ''precip_probability'')))]
             | Daily \<Rightarrow>
                 [(''maxTemperature'',
                     cond (fc ''air_temp_high'') (arith (\<lambda>x. x + 273.15) (fc ''air_temp_high''))),
                  (''minTemperature'',
                     cond (fc ''air_temp_low'') (arith (\<lambda>x. x + 273.15) (fc ''air_temp_low''))),
                  (''precipitationType'', Some (Str (mapPrecipitationType (fc ''precip_type'')))),
                  (''precipitationProbability'',
                     cond (fc ''precip_probability'')
                       (arith (\<lambda>x. x / 100) (fc ''precip_probability'')))]);
          wnd =
            (case type of
               Point \<Rightarrow>
                 [(''speedTrue'', fc ''wind_avg''),
                  (''directionTrue'',
                     cond (fc ''wind_direction'') (arith (\<lambda>x. x * (pi / 180)) (fc ''wind_direction''))),
                  (''gust'', fc ''wind_gust''),
                  (''averageSpeed'', fc ''wind_avg'')]
             | Daily \<Rightarrow>
                 [(''speedTrue'', fc ''wind_avg''),
                  (''directionTrue'',
                     cond (fc ''wind_direction'') (arith (\<lambda>x. x * (pi / 180)) (fc ''wind_direction''))),
                  (''averageSpeed'', fc ''wind_avg'')]);
          sn =
            (if type = Daily \<and> truthyV (fc ''sunrise_iso'') \<and> truthyV (fc ''sunset_iso'')
             then Some (the (fc ''sunrise_iso''), the (fc ''sunset_iso'')) else None)
      in case dateV of
           None \<Rightarrow> None
         | Some d \<Rightarrow>
             Some \<lparr>date = d, wtype = forecastTypeName type,
                   description =
                     orElse (fc ''conditions'')
                       (Str (''WeatherFlow '' @ forecastTypeName type @ '' forecast'')),
                   outside = Some out, wind = Some wnd, sun = sn\<rparr>)"

definition getStationLocation :: "PluginState \<Rightarrow> Position" where
  "getStationLocation st =
     (case currentVesselPosition st of
        Some vesselPosition \<Rightarrow> vesselPosition
      | None \<Rightarrow>
          (case stationLocation st of
             Some p \<Rightarrow> p
           | None \<Rightarrow> \<lparr>latitude = 0, longitude = 0\<rparr>))"

text \<open>The term \<open>a\<close> of \<open>calculateDistance\<close>, in exact arithmetic.\<close>

definition haversineA :: "Position \<Rightarrow> Position \<Rightarrow> real" where
  "haversineA pos1 pos2 =
     (let phi1 = (latitude pos1 * pi) / 180;
          phi2 = (latitude pos2 * pi) / 180;
          dphi = ((latitude pos2 - latitude pos1) * pi) / 180;
          dlam = ((longitude pos2 - longitude pos1) * pi) / 180
      in sin (dphi / 2) * sin (dphi / 2)
         + cos phi1 * cos phi2 * sin (dlam / 2) * sin (dlam / 2))"

definition calculateDistance :: "Rounding \<Rightarrow> Position \<Rightarrow> Position \<Rightarrow> real option" where
  \<comment> \<open>\<open>None\<close>: NaN, from the square root of a negative number\<close>
  "calculateDistance fl pos1 pos2 =
     (let R = 6371000;
          a = roundTerm fl (haversineA pos1 pos2)
      in case (math_sqrt a, math_sqrt (1 - a)) of
           (Some s, Some t) \<Rightarrow> Some (R * (2 * atan2 s t))
         | _ \<Rightarrow> None)"

text \<open>
  The observation loop of \<open>getObservations\<close>. A record is kept when it has a truthy
  \<open>timestamp\<close>. Nothing catches an exception here: the call fails as a whole.
\<close>

fun observationLoop :: "(string \<times> JSObject) list \<Rightarrow> instant \<Rightarrow> WeatherData list \<Rightarrow> WeatherData list option" where
  "observationLoop [] now observations = Some observations"
| "observationLoop ((type, data) # rest) now observations =
     (if truthyV (data ''timestamp'')
      then (case convertObservationToWeatherAPI type data now of
              None \<Rightarrow> None
            | Some weatherData \<Rightarrow> observationLoop rest now (observations @ [weatherData]))
      else observationLoop rest now observations)"

definition getObservations :: "PluginState \<Rightarrow> Position \<Rightarrow> WeatherReqParams option \<Rightarrow> instant \<Rightarrow> WeatherData list option" where
  "getObservations st position options now =
     (case observationLoop (latestObservations st) now [] of
        None \<Rightarrow> None
      | Some observations \<Rightarrow>
          (case options of
             Some opts \<Rightarrow>
               (if truthy_opt (maxCount opts) \<and> real (length observations) > the (maxCount opts)
                then Some (js_slice0 observations (the (maxCount opts)))
                else Some observations)
           | None \<Rightarrow> Some observations))"

text \<open>
  The forecast loops of \<open>getForecasts\<close> run inside \<open>try\<close>: when a conversion raises,
  the handler logs and the function returns the entries pushed so far. The flag of the
  result says whether the loop ran to its end.
\<close>

fun forecastLoop :: "JSObject list \<Rightarrow> WeatherForecastType \<Rightarrow> WeatherData list \<Rightarrow> WeatherData list \<times> bool" where
  "forecastLoop [] type forecasts = (forecasts, True)"
| "forecastLoop (fc # rest) type forecasts =
     (case convertForecastToWeatherAPI fc type of
        None \<Rightarrow> (forecasts, False)
      | Some weatherData \<Rightarrow> forecastLoop rest type (forecasts @ [weatherData]))"

definition atOrAfter :: "instant option \<Rightarrow> instant option \<Rightarrow> bool" where
  \<comment> \<open>\<open>a >= b\<close> on time values: false when either is NaN\<close>
  "atOrAfter a b = (case (a, b) of (Some x, Some y) \<Rightarrow> x \<ge> y | _ \<Rightarrow> False)"

definition exceeds :: "real option \<Rightarrow> real \<Rightarrow> bool" where
  \<comment> \<open>\<open>a > b\<close>: false when a is NaN\<close>
  "exceeds a b = (case a of Some x \<Rightarrow> x > b | None \<Rightarrow> False)"

definition getForecasts :: "Rounding \<Rightarrow> PluginState \<Rightarrow> Position \<Rightarrow> WeatherForecastType \<Rightarrow> WeatherReqParams option \<Rightarrow> WeatherData list" where
  "getForecasts fl st position type options =
     (let stationPos = getStationLocation st;
          distance = calculateDistance fl position stationPos;
          maxDistance = 100000
      in if exceeds distance maxDistance then []
         else
           (case latestForecastData st of
              None \<Rightarrow> []
            | Some fd \<Rightarrow>
                (let lists = (case forecast fd of None \<Rightarrow> (None, None)
                                | Some f \<Rightarrow> (hourly f, daily f));
                     (forecasts, completed) =
                       (if type = Point \<and> fst lists \<noteq> None
                        then forecastLoop (take 72 (the (fst lists))) Point []
                        else if type = Daily \<and> snd lists \<noteq> None
                        then forecastLoop (take 10 (the (snd lists))) Daily []
                        else ([], True))
                 in if \<not> completed then forecasts
                    else if options \<noteq> None \<and> truthyV (startDate (the options))
                    then (let startTime = getTime (startDate (the options))
                          in filter (\<lambda>f. atOrAfter (getTime (Some (date f))) startTime) forecasts)
                    else if options \<noteq> None \<and> truthy_opt (maxCount (the options))
                            \<and> real (length forecasts) > the (maxCount (the options))
                    then js_slice0 forecasts (the (maxCount (the options)))
                    else forecasts)))"

text \<open>\<open>getWarnings\<close>; the second argument is the reading of \<open>new Date()\<close>.\<close>

definition getWarnings :: "PluginState \<Rightarrow> instant \<Rightarrow> WeatherWarning list" where
  "getWarnings st now =
     (case map_of (latestObservations st) ''tempest'' of
        None \<Rightarrow> []
      | Some lightningData \<Rightarrow>
          (if exceeds (numOf (lightningData ''lightningStrikeCount'')) 0
           then
             (let lastStrikeTime =
                    newDate (map_option (\<lambda>x. x * 1000) (numOf (lightningData ''timeEpoch'')));
                  warningEndTime =
                    newDate (map_option (\<lambda>t. of_int t + 30 * 60 * 1000) lastStrikeTime)
              in case (lastStrikeTime, warningEndTime) of
                   (Some s, Some e) \<Rightarrow>
                     (if now < e
                      then [\<lparr>startTime = s, endTime = e,
                             details =
                               [Lit ''Lightning activity detected. '',
                                Shown (the (lightningData ''lightningStrikeCount'')),
                                Lit '' strikes recorded. Last strike at average distance of '',
                                (case numOf (lightningData ''lightningStrikeAvgDistance'') of
                                   Some x \<Rightarrow> ShownInt (math_round x) | None \<Rightarrow> Shown NaN),
                                Lit ''m.''],
                             source = ''WeatherFlow Station'',
                             warningType = ''lightning''\<rparr>]
                      else [])
                 | _ \<Rightarrow> [])
           else []))"

section \<open>Concrete inputs\<close>

definition calmWind :: WindInput where
  \<comment> \<open>no wind, sensor pointing abeam\<close>
  "calmWind = \<lparr>wi_windSpeed = 0, wi_windDirection = 90, wi_airTemperature = None\<rparr>"

definition breeze :: WindInput where
  "breeze = \<lparr>wi_windSpeed = 5, wi_windDirection = 90, wi_airTemperature = None\<rparr>"

definition freezingOverride :: WindInput where
  \<comment> \<open>a sample that carries an air temperature of 0\<close>
  "freezingOverride = \<lparr>wi_windSpeed = 5, wi_windDirection = 90, wi_airTemperature = Some 0\<rparr>"



definition hugeDirection :: WindInput where
  \<comment> \<open>a wind direction of 1e20 degrees\<close>
  "hugeDirection = \<lparr>wi_windSpeed = 5, wi_windDirection = 10 ^ 20, wi_airTemperature = None\<rparr>"

definition justLeftOfBow :: WindInput where
  \<comment> \<open>a wind direction of -1e-15 degrees\<close>
  "justLeftOfBow =
     \<lparr>wi_windSpeed = 5, wi_windDirection = - (1 / 10 ^ 15), wi_airTemperature = None\<rparr>"



definition coldState :: WindCalculations where
  \<comment> \<open>after the plugin has published 5 degrees Celsius and 55 percent humidity\<close>
  "coldState =
     updateNavigationData
       (updateNavigationData initialWindCalculations
          ''environment.outside.tempest.observations.airTemperature'' 278.15)
       ''environment.outside.tempest.observations.relativeHumidity'' 0.55"

definition gale :: WindInput where
  \<comment> \<open>10 m/s (36 km/h) abeam\<close>
  "gale = \<lparr>wi_windSpeed = 10, wi_windDirection = 90, wi_airTemperature = None\<rparr>"

text \<open>
  A rounding that does what doubles do at the two ends of the scale: from \<open>2^56\<close> on
  a full turn is less than half the spacing of doubles and leaves the angle as it is,
  and a full turn added to a negative angle above \<open>-2^-52\<close> rounds to \<open>2 * Math.PI\<close>.
\<close>

definition absorbing :: Rounding where
  "absorbing =
     \<lparr>subTurn = (\<lambda>a. if 2 ^ 56 \<le> a then a else a - 2 * pi),
      addTurn = (\<lambda>a. if a \<le> - (2 ^ 56) then a
                     else if - (1 / 2 ^ 52) < a \<and> a < 0 then 2 * pi else a + 2 * pi),
      roundTerm = (\<lambda>a. a)\<rparr>"




definition origin :: Position where
  "origin = \<lparr>latitude = 0, longitude = 0\<rparr>"


definition threeHours :: PluginState where
  \<comment> \<open>a cached bundle of three hourly entries, at 1000 s, 2000 s and 3000 s\<close>
  "threeHours =
     cacheForecastData initialState
       \<lparr>current_conditions = None,
        forecast = Some \<lparr>hourly = Some [[''time'' \<mapsto> Num 1000], [''time'' \<mapsto> Num 2000],
                                         [''time'' \<mapsto> Num 3000]],
                         daily = None\<rparr>\<rparr>"


definition strikeRecord :: JSObject where
  "strikeRecord =
     [''timeEpoch'' \<mapsto> Num 1700000000, ''lightningStrikeCount'' \<mapsto> Num 3,
      ''lightningStrikeAvgDistance'' \<mapsto> Num 12400.6]"

definition strikeState :: PluginState where
  "strikeState = cacheObservationData initialState ''tempest'' strikeRecord 1700000000500"


section \<open>Auxiliary facts about angles\<close>

lemma normalizeDown_stuck:
  assumes "pi < a" and "subTurn fl a = a"
  shows "normalizeDown fl a = None"
proof (rule ccontr)
  assume "normalizeDown fl a \<noteq> None"
  then obtain r where r: "normalizeDown fl a = Some r" by auto
  have "\<not> (pi < a \<and> subTurn fl a = a)"
  proof (rule normalizeDown.raw_induct
      [where P = "\<lambda>fl' a' r'. \<not> (pi < a' \<and> subTurn fl' a' = a')", OF _ r])
    fix f :: "Rounding \<Rightarrow> real \<Rightarrow> real option" and fl' a' r'
    assume IH: "\<And>x y z. f x y = Some z \<Longrightarrow> \<not> (pi < y \<and> subTurn x y = y)"
      and step: "(if pi < a' then f fl' (subTurn fl' a') else Some a') = Some r'"
    show "\<not> (pi < a' \<and> subTurn fl' a' = a')"
    proof
      assume s: "pi < a' \<and> subTurn fl' a' = a'"
      with step have "f fl' a' = Some r'" by simp
      from IH [OF this] s show False by blast
    qed
  qed
  with assms show False by blast
qed

lemma normalizeDown_returns:
  assumes d: "0 < d"
    and prog: "\<And>x. pi < x \<Longrightarrow> x \<le> B \<Longrightarrow> subTurn fl x \<le> x - d \<and> - pi \<le> subTurn fl x"
    and a: "a \<le> B"
  shows "\<exists>r. normalizeDown fl a = Some r \<and> r \<le> pi \<and> (if a \<le> pi then r = a else - pi \<le> r)"
  using a
proof (induction "nat \<lceil>(a - pi) / d\<rceil>" arbitrary: a rule: less_induct)
  case less
  show ?case
  proof (cases "pi < a")
    case False
    then show ?thesis
      by (subst normalizeDown.simps) simp
  next
    case True
    with less.prems prog have s: "subTurn fl a \<le> a - d" and lo: "- pi \<le> subTurn fl a"
      by blast+
    have "(subTurn fl a - pi) / d \<le> (a - d - pi) / d"
      using s d by (intro divide_right_mono) simp_all
    also have "\<dots> = (a - pi) / d - 1"
      using d by (simp add: field_simps)
    finally have "(subTurn fl a - pi) / d \<le> (a - pi) / d - 1" .
    then have "\<lceil>(subTurn fl a - pi) / d\<rceil> \<le> \<lceil>(a - pi) / d\<rceil> - 1"
      by (metis ceiling_diff_one ceiling_mono)
    moreover have "0 < \<lceil>(a - pi) / d\<rceil>"
      using True d by (simp add: less_ceiling_iff)
    ultimately have m: "nat \<lceil>(subTurn fl a - pi) / d\<rceil> < nat \<lceil>(a - pi) / d\<rceil>"
      by linarith
    have "subTurn fl a \<le> B"
      using s d less.prems by linarith
    from less.hyps [OF m this]
    obtain r where r: "normalizeDown fl (subTurn fl a) = Some r" "r \<le> pi"
        "if subTurn fl a \<le> pi then r = subTurn fl a else - pi \<le> r"
      by blast
    from r(3) lo have "- pi \<le> r"
      by (simp split: if_splits)
    with r(1,2) True show ?thesis
      by (subst normalizeDown.simps) simp
  qed
qed

lemma normalizeUp_returns:
  assumes d: "0 < d"
    and prog: "\<And>x. - B \<le> x \<Longrightarrow> x < - pi \<Longrightarrow> x + d \<le> addTurn fl x \<and> addTurn fl x \<le> pi"
    and a: "- B \<le> a"
  shows "\<exists>r. normalizeUp fl a = Some r \<and> - pi \<le> r \<and> (if - pi \<le> a then r = a else r \<le> pi)"
  using a
proof (induction "nat \<lceil>(- pi - a) / d\<rceil>" arbitrary: a rule: less_induct)
  case less
  show ?case
  proof (cases "a < - pi")
    case False
    then show ?thesis
      by (subst normalizeUp.simps) simp
  next
    case True
    with less.prems prog have s: "a + d \<le> addTurn fl a" and hi: "addTurn fl a \<le> pi"
      by blast+
    have "(- pi - addTurn fl a) / d \<le> (- pi - a - d) / d"
      using s d by (intro divide_right_mono) simp_all
    also have "\<dots> = (- pi - a) / d - 1"
      using d by (simp add: field_simps)
    finally have "(- pi - addTurn fl a) / d \<le> (- pi - a) / d - 1" .
    then have "\<lceil>(- pi - addTurn fl a) / d\<rceil> \<le> \<lceil>(- pi - a) / d\<rceil> - 1"
      by (metis ceiling_diff_one ceiling_mono)
    moreover have "0 < \<lceil>(- pi - a) / d\<rceil>"
      using True d by (simp add: less_ceiling_iff)
    ultimately have m: "nat \<lceil>(- pi - addTurn fl a) / d\<rceil> < nat \<lceil>(- pi - a) / d\<rceil>"
      by linarith
    have "- B \<le> addTurn fl a"
      using s d less.prems by linarith
    from less.hyps [OF m this]
    obtain r where r: "normalizeUp fl (addTurn fl a) = Some r" "- pi \<le> r"
        "if - pi \<le> addTurn fl a then r = addTurn fl a else r \<le> pi"
      by blast
    from r(3) hi have "r \<le> pi"
      by (simp split: if_splits)
    with r(1,2) True show ?thesis
      by (subst normalizeUp.simps) simp
  qed
qed

lemma atan2_range: "- pi < atan2 y x \<and> atan2 y x \<le> pi"
proof -
  have lo: "- (pi / 2) < arctan (y / x)"
    by (rule arctan_lbound)
  have hi: "arctan (y / x) < pi / 2"
    by (rule arctan_ubound)
  consider (pos) "0 < x" | (negpos) "x < 0" "0 \<le> y" | (negneg) "x < 0" "y < 0"
    | (up) "x = 0" "0 < y" | (down) "x = 0" "y < 0" | (zero) "x = 0" "y = 0"
    by linarith
  then show ?thesis
  proof cases
    case pos
    then have "atan2 y x = arctan (y / x)"
      by (simp add: atan2_def)
    with lo hi pi_gt_zero show ?thesis
      by (intro conjI; linarith)
  next
    case negpos
    then have e: "atan2 y x = arctan (y / x) + pi"
      by (simp add: atan2_def)
    from negpos have "y / x \<le> 0"
      by (simp add: divide_nonneg_neg)
    then have "arctan (y / x) \<le> 0"
      by (simp add: arctan_le_zero_iff)
    with e lo pi_gt_zero show ?thesis
      by (intro conjI; linarith)
  next
    case negneg
    then have e: "atan2 y x = arctan (y / x) - pi"
      by (simp add: atan2_def)
    from negneg have "0 < y / x"
      by (simp add: divide_neg_neg)
    then have "0 < arctan (y / x)"
      by (simp add: zero_less_arctan_iff)
    with e hi pi_gt_zero show ?thesis
      by (intro conjI; linarith)
  next
    case up
    then have "atan2 y x = pi / 2"
      by (simp add: atan2_def)
    with pi_gt_zero show ?thesis
      by (intro conjI; linarith)
  next
    case down
    then have "atan2 y x = - (pi / 2)"
      by (simp add: atan2_def)
    with pi_gt_zero show ?thesis
      by (intro conjI; linarith)
  next
    case zero
    then have "atan2 y x = 0"
      by (simp add: atan2_def)
    with pi_gt_zero show ?thesis
      by (intro conjI; linarith)
  qed
qed

lemma cos_neg_upper: "pi / 2 < t \<Longrightarrow> t \<le> pi \<Longrightarrow> cos t < 0"
proof -
  assume a: "pi / 2 < t" "t \<le> pi"
  then have "0 < cos (t - pi)"
    by (intro cos_gt_zero_pi) simp_all
  then show ?thesis by simp
qed

lemma cos_neg_lower: "- pi < t \<Longrightarrow> t < - (pi / 2) \<Longrightarrow> cos t < 0"
proof -
  assume a: "- pi < t" "t < - (pi / 2)"
  then have "0 < cos (t + pi)"
    by (intro cos_gt_zero_pi) simp_all
  then show ?thesis by simp
qed

lemma sin_neg_lower: "- pi < t \<Longrightarrow> t < 0 \<Longrightarrow> sin t < 0"
proof -
  assume a: "- pi < t" "t < 0"
  then have "0 < sin (- t)"
    by (intro sin_gt_zero) simp_all
  then show ?thesis by simp
qed

lemma atan2_polar:
  assumes r: "0 < r" and lo: "- pi < t" and hi: "t \<le> pi"
  shows "atan2 (r * sin t) (r * cos t) = t"
proof -
  have q: "(r * sin t) / (r * cos t) = tan t"
    using r by (simp add: tan_def)
  consider (mid) "- (pi / 2) < t" "t < pi / 2" | (top) "t = pi / 2" | (bot) "t = - (pi / 2)"
    | (upper) "pi / 2 < t" | (lower) "t < - (pi / 2)"
    by linarith
  then show ?thesis
  proof cases
    case mid
    then have "0 < cos t" by (rule cos_gt_zero_pi)
    with r have "0 < r * cos t" by simp
    then have "atan2 (r * sin t) (r * cos t) = arctan (tan t)"
      using q by (simp add: atan2_def)
    with mid show ?thesis by (simp add: arctan_tan)
  next
    case top
    have "sin t = 1" and "cos t = 0"
      by (simp_all add: top)
    with r have "atan2 (r * sin t) (r * cos t) = pi / 2"
      by (simp add: atan2_def)
    then show ?thesis by (simp only: top)
  next
    case bot
    have "sin t = - 1" and "cos t = 0"
      by (simp_all add: bot)
    with r have "atan2 (r * sin t) (r * cos t) = - (pi / 2)"
      by (simp add: atan2_def)
    then show ?thesis by (simp only: bot)
  next
    case upper
    from upper hi have c: "cos t < 0" by (rule cos_neg_upper)
    from upper hi have s: "0 \<le> sin t"
      using pi_gt_zero by (intro sin_ge_zero) linarith+
    from c r have x: "r * cos t < 0" by (simp add: mult_pos_neg)
    from s r have y: "0 \<le> r * sin t" by simp
    have "tan t = tan (t - pi)" by (simp add: tan_def)
    moreover have "arctan (tan (t - pi)) = t - pi"
      using upper hi by (intro arctan_tan) linarith+
    ultimately have "arctan (tan t) = t - pi" by simp
    with x y q show ?thesis by (simp add: atan2_def)
  next
    case lower
    from lo lower have c: "cos t < 0" by (rule cos_neg_lower)
    from lower lo have s: "sin t < 0"
      using pi_gt_zero by (intro sin_neg_lower) linarith+
    from c r have x: "r * cos t < 0" by (simp add: mult_pos_neg)
    from s r have y: "r * sin t < 0" by (simp add: mult_pos_neg)
    have "tan t = tan (t + pi)" by (simp add: tan_def)
    moreover have "arctan (tan (t + pi)) = t + pi"
      using lower lo by (intro arctan_tan) linarith+
    ultimately have "arctan (tan t) = t + pi" by simp
    with x y q show ?thesis by (simp add: atan2_def)
  qed
qed

lemma magnitude_polar: "sqrt (r * cos t * (r * cos t) + r * sin t * (r * sin t)) = \<bar>r\<bar>"
proof -
  have "r * cos t * (r * cos t) + r * sin t * (r * sin t)
        = r * r * (cos t * cos t + sin t * sin t)"
    by (simp only: distrib_left mult_ac)
  also have "\<dots> = r * r"
    by (simp only: sin_cos_squared_add3 mult_1_right)
  finally show ?thesis by simp
qed


lemma normalizeAngle_returns:
  assumes t: "turnsRegister fl B d" and a: "\<bar>a\<bar> \<le> B"
  shows "\<exists>r. normalizeAngle fl a = Some r \<and> - pi \<le> r \<and> r \<le> pi"
proof -
  from t have d: "0 < d"
    and down: "\<And>x. pi < x \<Longrightarrow> x \<le> B \<Longrightarrow> subTurn fl x \<le> x - d \<and> - pi \<le> subTurn fl x"
    and up: "\<And>x. - B \<le> x \<Longrightarrow> x < - pi \<Longrightarrow> x + d \<le> addTurn fl x \<and> addTurn fl x \<le> pi"
    by (simp_all add: turnsRegister_def)
  from a have "a \<le> B" and lo: "- B \<le> a"
    by linarith+
  from normalizeDown_returns [OF d down this(1)]
  obtain r1 where r1: "normalizeDown fl a = Some r1" "r1 \<le> pi"
      "if a \<le> pi then r1 = a else - pi \<le> r1"
    by blast
  have "- B \<le> r1"
  proof (cases "a \<le> pi")
    case True
    with r1(3) lo show ?thesis by simp
  next
    case False
    with r1(3) a show ?thesis by simp
  qed
  from normalizeUp_returns [OF d up this]
  obtain r2 where r2: "normalizeUp fl r1 = Some r2" "- pi \<le> r2"
      "if - pi \<le> r1 then r2 = r1 else r2 \<le> pi"
    by blast
  from r2(3) r1(2) have "r2 \<le> pi"
    by (simp split: if_splits)
  with r1(1) r2(1,2) show ?thesis
    by (simp add: normalizeAngle_def)
qed

lemma normalizeAngle_id: "- pi \<le> a \<Longrightarrow> a \<le> pi \<Longrightarrow> normalizeAngle fl a = Some a"
  unfolding normalizeAngle_def
  by (subst normalizeDown.simps, simp, subst normalizeUp.simps, simp)

lemma exact_turnsRegister: "turnsRegister exactArithmetic B (2 * pi)"
  by (simp add: turnsRegister_def exactArithmetic_def)

lemma exact_bearingRounds: "bearingRounds exactArithmetic"
  by (simp add: bearingRounds_def exactArithmetic_def)

lemma normalizeAngle_exact:
  "\<exists>r. normalizeAngle exactArithmetic a = Some r \<and> - pi \<le> r \<and> r \<le> pi"
  by (rule normalizeAngle_returns [OF exact_turnsRegister [of "\<bar>a\<bar>"]]) simp

lemma toCompassBearing_range:
  assumes "bearingRounds fl" and "- pi < r" and "r \<le> pi"
  shows "0 \<le> toCompassBearing fl r \<and> toCompassBearing fl r \<le> 2 * pi"
proof (cases "r < 0")
  case True
  with assms show ?thesis
    by (simp add: toCompassBearing_def bearingRounds_def)
next
  case False
  with assms(3) pi_gt_zero show ?thesis
    by (simp add: toCompassBearing_def)
qed

lemma compass_polar:
  assumes r: "0 < r" and lo: "0 \<le> t" and hi: "t < 2 * pi"
  shows "toCompassBearing exactArithmetic (atan2 (r * sin t) (r * cos t)) = t"
proof (cases "t \<le> pi")
  case True
  with r lo have "atan2 (r * sin t) (r * cos t) = t"
    using pi_gt_zero by (intro atan2_polar) linarith+
  with lo show ?thesis by (simp add: toCompassBearing_def)
next
  case False
  have "atan2 (r * sin (t - 2 * pi)) (r * cos (t - 2 * pi)) = t - 2 * pi"
    using r False hi by (intro atan2_polar) linarith+
  then have "atan2 (r * sin t) (r * cos t) = t - 2 * pi"
    by (simp add: sin_diff cos_diff)
  with hi show ?thesis by (simp add: toCompassBearing_def exactArithmetic_def)
qed

section \<open>Auxiliary facts about the derivation\<close>

lemma derived_fields:
  assumes "calculateDerivedWindValues fl st aw = Some d"
  shows "speedApparent d = windSpeed aw"
    and "speedTrue d =
      sqrt ((windSpeed aw * cos (apparentTrueRad aw) + effectiveSOG st * cos (effectiveHeadingTrueRad st))
            * (windSpeed aw * cos (apparentTrueRad aw) + effectiveSOG st * cos (effectiveHeadingTrueRad st))
          + (windSpeed aw * sin (apparentTrueRad aw) + effectiveSOG st * sin (effectiveHeadingTrueRad st))
            * (windSpeed aw * sin (apparentTrueRad aw) + effectiveSOG st * sin (effectiveHeadingTrueRad st)))"
    and "directionTrue d =
      toCompassBearing fl
        (atan2 (windSpeed aw * sin (apparentTrueRad aw) + effectiveSOG st * sin (effectiveHeadingTrueRad st))
               (windSpeed aw * cos (apparentTrueRad aw) + effectiveSOG st * cos (effectiveHeadingTrueRad st)))"
    and "directionMagnetic d =
      toCompassBearing fl
        (atan2 (windSpeed aw * sin (apparentMagneticRad aw)
                  + effectiveSOG st * sin (effectiveHeadingMagneticRad st))
               (windSpeed aw * cos (apparentMagneticRad aw)
                  + effectiveSOG st * cos (effectiveHeadingMagneticRad st)))"
    and "normalizeAngle fl
           (if truthy (windAngleRelativeRad aw) then windAngleRelativeRad aw
            else apparentTrueRad aw - effectiveHeadingTrueRad st) = Some (angleApparent d)"
    and "normalizeAngle fl (directionTrue d - effectiveHeadingTrueRad st) = Some (angleTrueGround d)"
    and "normalizeAngle fl (directionMagnetic d - effectiveHeadingMagneticRad st)
           = Some (angleTrueWater d)"
    and "windChill d =
      (if airTemp st \<le> 10 \<and> speedTrue d * 3.6 > 4.8
       then Some (windChillC (airTemp st) (speedTrue d * 3.6) + 273.15) else None)"
    and "heatIndex d =
      (if (airTemp st * 9) / 5 + 32 \<ge> 80 \<and> humidity st \<ge> 40
       then Some (((heatIndexF ((airTemp st * 9) / 5 + 32) (humidity st) - 32) * 5) / 9 + 273.15)
       else None)"
    and "feelsLike d =
      (if windChill d \<noteq> None \<and> airTemp st \<le> 10 then the (windChill d)
       else if heatIndex d \<noteq> None \<and> airTemp st \<ge> 27 then the (heatIndex d)
       else airTemp st)"
  using assms
  unfolding calculateDerivedWindValues_def Let_def
  by (clarsimp split: option.split_asm split del: if_split cong: if_cong)+

lemma derived_returns:
  assumes "normalizeAngle fl
           (if truthy (windAngleRelativeRad aw) then windAngleRelativeRad aw
            else apparentTrueRad aw - effectiveHeadingTrueRad st) \<noteq> None"
    and "normalizeAngle fl
           (toCompassBearing fl
              (atan2 (windSpeed aw * sin (apparentTrueRad aw)
                        + effectiveSOG st * sin (effectiveHeadingTrueRad st))
                     (windSpeed aw * cos (apparentTrueRad aw)
                        + effectiveSOG st * cos (effectiveHeadingTrueRad st)))
            - effectiveHeadingTrueRad st) \<noteq> None"
    and "normalizeAngle fl
           (toCompassBearing fl
              (atan2 (windSpeed aw * sin (apparentMagneticRad aw)
                        + effectiveSOG st * sin (effectiveHeadingMagneticRad st))
                     (windSpeed aw * cos (apparentMagneticRad aw)
                        + effectiveSOG st * cos (effectiveHeadingMagneticRad st)))
            - effectiveHeadingMagneticRad st) \<noteq> None"
  shows "\<exists>d. calculateDerivedWindValues fl st aw = Some d"
proof -
  from assms obtain a1 a2 a3 where
    "normalizeAngle fl
           (if truthy (windAngleRelativeRad aw) then windAngleRelativeRad aw
            else apparentTrueRad aw - effectiveHeadingTrueRad st) = Some a1"
    "normalizeAngle fl
           (toCompassBearing fl
              (atan2 (windSpeed aw * sin (apparentTrueRad aw)
                        + effectiveSOG st * sin (effectiveHeadingTrueRad st))
                     (windSpeed aw * cos (apparentTrueRad aw)
                        + effectiveSOG st * cos (effectiveHeadingTrueRad st)))
            - effectiveHeadingTrueRad st) = Some a2"
    "normalizeAngle fl
           (toCompassBearing fl
              (atan2 (windSpeed aw * sin (apparentMagneticRad aw)
                        + effectiveSOG st * sin (effectiveHeadingMagneticRad st))
                     (windSpeed aw * cos (apparentMagneticRad aw)
                        + effectiveSOG st * cos (effectiveHeadingMagneticRad st)))
            - effectiveHeadingMagneticRad st) = Some a3"
    by blast
  then show ?thesis
    unfolding calculateDerivedWindValues_def Let_def
    by (simp split del: if_split)
qed

lemma derived_exact_returns: "\<exists>d. calculateDerivedWindValues exactArithmetic st aw = Some d"
proof (rule derived_returns)
  show "normalizeAngle exactArithmetic
           (if truthy (windAngleRelativeRad aw) then windAngleRelativeRad aw
            else apparentTrueRad aw - effectiveHeadingTrueRad st) \<noteq> None"
    using normalizeAngle_exact by fastforce
next
  show "normalizeAngle exactArithmetic
           (toCompassBearing exactArithmetic
              (atan2 (windSpeed aw * sin (apparentTrueRad aw)
                        + effectiveSOG st * sin (effectiveHeadingTrueRad st))
                     (windSpeed aw * cos (apparentTrueRad aw)
                        + effectiveSOG st * cos (effectiveHeadingTrueRad st)))
            - effectiveHeadingTrueRad st) \<noteq> None"
    using normalizeAngle_exact by fastforce
next
  show "normalizeAngle exactArithmetic
           (toCompassBearing exactArithmetic
              (atan2 (windSpeed aw * sin (apparentMagneticRad aw)
                        + effectiveSOG st * sin (effectiveHeadingMagneticRad st))
                     (windSpeed aw * cos (apparentMagneticRad aw)
                        + effectiveSOG st * cos (effectiveHeadingMagneticRad st)))
            - effectiveHeadingMagneticRad st) \<noteq> None"
    using normalizeAngle_exact by fastforce
qed

lemma derived_stuck:
  assumes "normalizeAngle fl
           (if truthy (windAngleRelativeRad aw) then windAngleRelativeRad aw
            else apparentTrueRad aw - effectiveHeadingTrueRad st) = None"
  shows "calculateDerivedWindValues fl st aw = None"
  using assms
  unfolding calculateDerivedWindValues_def Let_def
  by simp

lemma trunc_small: "\<bar>x\<bar> < 1 \<Longrightarrow> trunc x = 0"
  by (auto simp add: trunc_def floor_eq_iff ceiling_eq_iff)

lemma apparent_heading_zero:
  assumes "headingTrue st = 0" and "headingMagnetic st = 0" and "\<bar>wi_windDirection wd\<bar> < 360"
  shows "windSpeed (calculateApparentWind st wd) = wi_windSpeed wd"
    and "windAngleRelativeRad (calculateApparentWind st wd) = (wi_windDirection wd * pi) / 180"
    and "apparentTrueRad (calculateApparentWind st wd) = (wi_windDirection wd * pi) / 180"
    and "apparentMagneticRad (calculateApparentWind st wd) = (wi_windDirection wd * pi) / 180"
proof -
  have "\<bar>wi_windDirection wd / 360\<bar> < 1"
    using assms(3) by simp
  then have "js_rem (wi_windDirection wd) 360 = wi_windDirection wd"
    by (simp add: js_rem_def trunc_small)
  then show "windSpeed (calculateApparentWind st wd) = wi_windSpeed wd"
    and "windAngleRelativeRad (calculateApparentWind st wd) = (wi_windDirection wd * pi) / 180"
    and "apparentTrueRad (calculateApparentWind st wd) = (wi_windDirection wd * pi) / 180"
    and "apparentMagneticRad (calculateApparentWind st wd) = (wi_windDirection wd * pi) / 180"
    using assms(1,2)
    by (simp_all add: calculateApparentWind_def Let_def radToDeg_def degToRad_def)
qed


lemma initial_fields:
  "headingTrue initialWindCalculations = 0" "headingMagnetic initialWindCalculations = 0"
  "airTemp initialWindCalculations = 0" "effectiveSOG initialWindCalculations = 0"
  "effectiveHeadingTrueRad initialWindCalculations = 0"
  "effectiveHeadingMagneticRad initialWindCalculations = 0"
  "humidity initialWindCalculations = 0"
  by (simp_all add: initialWindCalculations_def
      effectiveSOG_def effectiveHeadingTrueRad_def effectiveHeadingMagneticRad_def)


lemma coldState_fields:
  "headingTrue coldState = 0" "headingMagnetic coldState = 0" "airTemp coldState = 278.15"
  "effectiveSOG coldState = 0" "effectiveHeadingTrueRad coldState = 0"
  "effectiveHeadingMagneticRad coldState = 0" "humidity coldState = 0.55"
  by (simp_all add: coldState_def updateNavigationData_def initialWindCalculations_def
      effectiveSOG_def effectiveHeadingTrueRad_def effectiveHeadingMagneticRad_def)




lemma absorbing_turnsRegister: "turnsRegister absorbing 100 (2 * pi)"
proof -
  have down: "subTurn absorbing x = x - 2 * pi" if "x \<le> 100" for x
  proof -
    have "x < (2 :: real) ^ 56"
      using that by simp
    then show ?thesis
      by (simp add: absorbing_def)
  qed
  have up: "addTurn absorbing x = x + 2 * pi" if "- 100 \<le> x" and "x < - pi" for x
  proof -
    have "- ((2 :: real) ^ 56) < x"
      using that(1) by simp
    moreover have "x < - (1 / 2 ^ 52)"
    proof -
      have "(1 :: real) / 2 ^ 52 < 2"
        by simp
      also have "\<dots> \<le> pi"
        by (rule pi_ge_two)
      finally show ?thesis
        using that(2) by linarith
    qed
    ultimately show ?thesis
      by (simp add: absorbing_def)
  qed
  show ?thesis
    unfolding turnsRegister_def
  proof (intro conjI allI impI)
    show "0 < 2 * pi"
      by simp
  next
    fix x :: real
    assume "pi < x \<and> x \<le> 100"
    then show "subTurn absorbing x \<le> x - 2 * pi"
      by (simp add: down)
  next
    fix x :: real
    assume "pi < x \<and> x \<le> 100"
    then show "- pi \<le> subTurn absorbing x"
      by (simp add: down)
  next
    fix x :: real
    assume "- 100 \<le> x \<and> x < - pi"
    then show "x + 2 * pi \<le> addTurn absorbing x"
      by (simp add: up)
  next
    fix x :: real
    assume "- 100 \<le> x \<and> x < - pi"
    then show "addTurn absorbing x \<le> pi"
      by (simp add: up)
  qed
qed

lemma absorbing_bearingRounds: "bearingRounds absorbing"
proof -
  have "0 \<le> addTurn absorbing r \<and> addTurn absorbing r \<le> 2 * pi" if "- pi < r" and "r < 0" for r
  proof -
    have "- ((2 :: real) ^ 56) < - 4"
      by simp
    also have "- 4 < - pi"
      using pi_less_4 by simp
    finally have "\<not> r \<le> - (2 ^ 56)"
      using that(1) by linarith
    with that show ?thesis
      by (simp add: absorbing_def)
  qed
  then show ?thesis
    by (simp add: bearingRounds_def)
qed

lemma huge_stuck:
  "normalizeAngle absorbing (10 ^ 20 * pi / 180) = None"
proof -
  have big: "(2 :: real) ^ 56 \<le> 10 ^ 20 * 2 / 180"
    by simp
  also have "\<dots> \<le> 10 ^ 20 * pi / 180"
    using pi_ge_two by simp
  finally have b: "(2 :: real) ^ 56 \<le> 10 ^ 20 * pi / 180" .
  have "pi < 10 ^ 20 * pi / 180"
    using pi_gt_zero by simp
  moreover from b have "subTurn absorbing (10 ^ 20 * pi / 180) = 10 ^ 20 * pi / 180"
    by (simp add: absorbing_def)
  ultimately have "normalizeDown absorbing (10 ^ 20 * pi / 180) = None"
    by (rule normalizeDown_stuck)
  then show ?thesis
    by (simp add: normalizeAngle_def)
qed

lemma hugeDirection_angle:
  "windAngleRelativeRad (calculateApparentWind initialWindCalculations hugeDirection)
     = 10 ^ 20 * pi / 180"
  by (simp add: calculateApparentWind_def Let_def degToRad_def hugeDirection_def)

lemma tiny_angle:
  "- (1 / 2 ^ 52) < - (pi / 180000000000000000)"
  "- (pi / 180000000000000000) < 0"
  "- pi < - (pi / 180000000000000000)"
  "- (pi / 180000000000000000) \<le> pi"
proof -
  have "pi / 180000000000000000 < 4 / 180000000000000000"
    using pi_less_4 by (simp add: divide_strict_right_mono)
  also have "\<dots> < 1 / 2 ^ 52"
    by simp
  finally show "- (1 / 2 ^ 52) < - (pi / 180000000000000000)"
    by simp
  show "- (pi / 180000000000000000) < 0"
    using pi_gt_zero by simp
  have "pi / 180000000000000000 < pi"
    using pi_gt_zero by (simp add: field_simps)
  then show "- pi < - (pi / 180000000000000000)"
    by simp
  show "- (pi / 180000000000000000) \<le> pi"
    using pi_gt_zero by (simp add: field_simps)
qed

lemma full_turn_absorbing: "normalizeAngle absorbing (2 * pi) = Some 0"
proof -
  have "2 * pi < 2 * 4"
    using pi_less_4 by simp
  also have "\<dots> < (2 :: real) ^ 56"
    by simp
  finally have s: "subTurn absorbing (2 * pi) = 0"
    by (simp add: absorbing_def)
  have "normalizeDown absorbing (2 * pi) = normalizeDown absorbing 0"
    using pi_gt_zero by (subst normalizeDown.simps) (simp add: s)
  also have "\<dots> = Some 0"
    by (subst normalizeDown.simps) simp
  finally show ?thesis
    by (simp add: normalizeAngle_def) (subst normalizeUp.simps, simp)
qed

text \<open>
  The thresholds of the wind chill compare the stored number, which is in Kelvin: at 5
  degrees Celsius, stored as 278.15, a wind of 10 m/s (36 km/h) gives no wind chill.
\<close>

lemma windChill_kelvin_reading:
  "map_option windChill
     (calculateDerivedWindValues exactArithmetic coldState (calculateApparentWind coldState gale))
     = Some None
   \<and> map_option speedTrue
     (calculateDerivedWindValues exactArithmetic coldState (calculateApparentWind coldState gale))
     = Some 10"
proof -
  obtain d where d: "calculateDerivedWindValues exactArithmetic coldState
      (calculateApparentWind coldState gale) = Some d"
    using derived_exact_returns by blast
  have s: "speedTrue d = 10"
    using derived_fields(2) [OF d]
    by (simp add: coldState_fields apparent_heading_zero gale_def)
  have "windChill d = None"
    by (simp add: derived_fields(8) [OF d] coldState_fields)
  with d s show ?thesis
    by simp
qed

section \<open>Auxiliary facts about the haversine term\<close>

lemma cos_product:
  fixes w u :: real
  shows "cos (w - u) * cos (w + u) = (cos w)\<^sup>2 - (sin u)\<^sup>2"
proof -
  have "cos (w - u) * cos (w + u)
        = (cos w * cos u + sin w * sin u) * (cos w * cos u - sin w * sin u)"
    by (simp only: cos_add cos_diff)
  also have "\<dots> = (cos w * cos u)\<^sup>2 - (sin w * sin u)\<^sup>2"
    by (simp add: power2_eq_square algebra_simps)
  also have "\<dots> = (cos w)\<^sup>2 * (1 - (sin u)\<^sup>2) - (1 - (cos w)\<^sup>2) * (sin u)\<^sup>2"
    by (simp only: power_mult_distrib cos_squared_eq [of u] sin_squared_eq [of w])
  also have "\<dots> = (cos w)\<^sup>2 - (sin u)\<^sup>2"
    by (simp add: algebra_simps)
  finally show ?thesis .
qed

lemma convex_unit:
  fixes s A B :: real
  assumes "0 \<le> s" "s \<le> 1" "0 \<le> A" "A \<le> 1" "0 \<le> B" "B \<le> 1"
  shows "0 \<le> (1 - s) * A + s * B \<and> (1 - s) * A + s * B \<le> 1"
proof
  from assms show "0 \<le> (1 - s) * A + s * B"
    by (intro add_nonneg_nonneg mult_nonneg_nonneg) simp_all
next
  from assms have "(1 - s) * A \<le> (1 - s) * 1"
    by (intro mult_left_mono) simp_all
  moreover from assms have "s * B \<le> s * 1"
    by (intro mult_left_mono) simp_all
  ultimately show "(1 - s) * A + s * B \<le> 1"
    by simp
qed

text \<open>
  In exact arithmetic the haversine term is a convex combination of two squares and
  lies in the unit interval. Its rounded value need not.
\<close>

lemma haversineA_range: "0 \<le> haversineA pos1 pos2 \<and> haversineA pos1 pos2 \<le> 1"
proof -
  define p1 where "p1 = (latitude pos1 * pi) / 180"
  define p2 where "p2 = (latitude pos2 * pi) / 180"
  define u where "u = (p2 - p1) / 2"
  define w where "w = (p1 + p2) / 2"
  define v where "v = (((longitude pos2 - longitude pos1) * pi) / 180) / 2"
  define s where "s = (sin v)\<^sup>2"
  have du: "(((latitude pos2 - latitude pos1) * pi) / 180) / 2 = u"
    by (simp add: u_def p1_def p2_def algebra_simps diff_divide_distrib)
  have "p1 = w - u" and "p2 = w + u"
    by (simp_all add: w_def u_def field_simps)
  then have cc: "cos p1 * cos p2 = (cos w)\<^sup>2 - (sin u)\<^sup>2"
    by (simp only: cos_product)
  have "haversineA pos1 pos2 = sin u * sin u + cos p1 * cos p2 * sin v * sin v"
    unfolding haversineA_def Let_def du p1_def p2_def v_def ..
  also have "\<dots> = (sin u)\<^sup>2 + ((cos w)\<^sup>2 - (sin u)\<^sup>2) * s"
    by (simp add: cc s_def power2_eq_square)
  also have "\<dots> = (1 - s) * (sin u)\<^sup>2 + s * (cos w)\<^sup>2"
    by (simp add: algebra_simps)
  finally have e: "haversineA pos1 pos2 = (1 - s) * (sin u)\<^sup>2 + s * (cos w)\<^sup>2" .
  have "0 \<le> s" "s \<le> 1"
    by (simp_all add: s_def abs_square_le_1)
  moreover have "0 \<le> (sin u)\<^sup>2" "(sin u)\<^sup>2 \<le> 1" "0 \<le> (cos w)\<^sup>2" "(cos w)\<^sup>2 \<le> 1"
    by (simp_all add: abs_square_le_1)
  ultimately show ?thesis
    unfolding e by (rule convex_unit)
qed



lemma calculateDistance_exact:
  "calculateDistance exactArithmetic pos1 pos2 =
     Some (6371000 * (2 * atan2 (sqrt (haversineA pos1 pos2)) (sqrt (1 - haversineA pos1 pos2))))"
  using haversineA_range [of pos1 pos2]
  by (simp add: calculateDistance_def math_sqrt_def Let_def exactArithmetic_def)

lemma haversineA_same: "haversineA origin origin = 0"
  by (simp add: haversineA_def origin_def)


section \<open>Auxiliary facts about the forecast examples\<close>



lemma threeHours_fields:
  "getStationLocation threeHours = origin"
  "latestForecastData threeHours =
     Some \<lparr>current_conditions = None,
           forecast = Some \<lparr>hourly = Some [[''time'' \<mapsto> Num 1000], [''time'' \<mapsto> Num 2000],
                                            [''time'' \<mapsto> Num 3000]],
                            daily = None\<rparr>\<rparr>"
  by (simp_all add: threeHours_def cacheForecastData_def initialState_def getStationLocation_def
      origin_def)



lemma distance_same: "calculateDistance exactArithmetic origin origin = Some 0"
  by (simp add: calculateDistance_exact haversineA_same atan2_def)




section \<open>Auxiliary facts about field names\<close>

lemma snake_examples:
  "snakeToCamel ''air_temperature'' = ''airTemperature''"
  "snakeToCamel ''station_pressure'' = ''stationPressure''"
  "snakeToCamel ''wind_direction'' = ''windDirection''"
  by (simp_all add: isLowerOrDigit_def toUpperCase_def lowerCaseLetters_def upperCaseLetters_def)

section \<open>Feels-like temperature\<close>



section \<open>Forecast queries\<close>

text \<open>
  C2. The claim: with both \<open>startDate\<close> and \<open>maxCount\<close> given, the list returned by
  \<open>getForecasts\<close> holds only entries at or after \<open>startDate\<close> and has at most
  \<open>maxCount\<close> entries.
  The branch for \<open>startDate\<close> returns the filtered list at once, so the truncation to
  \<open>maxCount\<close> after it is not reached: with three cached hourly entries, a start date
  before all of them and \<open>maxCount = 1\<close>, three entries come back. Without the start
  date the same query returns one.
\<close>

theorem getForecasts_startDate_skips_maxCount:
  "length (getForecasts exactArithmetic threeHours origin Point
             (Some \<lparr>maxCount = Some 1, startDate = Some (Iso 0)\<rparr>)) = 3
   \<and> length (getForecasts exactArithmetic threeHours origin Point
             (Some \<lparr>maxCount = Some 1, startDate = None\<rparr>)) = 1"
  by (simp add: getForecasts_def threeHours_fields distance_same exceeds_def
      convertForecastToWeatherAPI_def truthyV_def numOf_def newDate_def trunc_def Let_def
      getTime_def atOrAfter_def truthy_opt_def truthy_def js_slice0_def)




section \<open>Lightning warnings\<close>

text \<open>
  C3. For a cached "tempest" record with strike count \<open>c\<close>, epoch \<open>t\<close> (in seconds,
  within the range of dates) and average strike distance \<open>d\<close>, and a query at the
  instant \<open>now\<close>: \<open>getWarnings\<close> returns exactly one warning, from the instant of the
  record to 30 minutes (1,800,000 ms) later, with the strike count and the rounded
  distance in its description, if \<open>c > 0\<close> and \<open>now\<close> is before the end of that window;
  otherwise it returns the empty list. The epoch the source reads is the record's
  \<open>timeEpoch\<close>.
\<close>

theorem getWarnings_lightning_window:
  assumes "map_of (latestObservations st) ''tempest'' = Some r"
    and "r ''lightningStrikeCount'' = Some (Num c)"
    and "r ''timeEpoch'' = Some (Num t)"
    and "r ''lightningStrikeAvgDistance'' = Some (Num d)"
    and "\<bar>t * 1000\<bar> \<le> 8640000000000000"
    and "\<bar>trunc (t * 1000) + 1800000\<bar> \<le> 8640000000000000"
  shows "getWarnings st now =
     (if 0 < c \<and> now < trunc (t * 1000) + 1800000
      then [\<lparr>startTime = trunc (t * 1000), endTime = trunc (t * 1000) + 1800000,
             details = [Lit ''Lightning activity detected. '', Shown (Num c),
                        Lit '' strikes recorded. Last strike at average distance of '',
                        ShownInt (math_round d), Lit ''m.''],
             source = ''WeatherFlow Station'', warningType = ''lightning''\<rparr>]
      else [])"
proof -
  have s: "newDate (Some (t * 1000)) = Some (trunc (t * 1000))"
    using assms(5) by (simp add: newDate_def)
  have "trunc (of_int (trunc (t * 1000)) + 30 * 60 * 1000) = trunc (t * 1000) + 1800000"
    by (simp add: trunc_def)
  moreover have "\<bar>of_int (trunc (t * 1000)) + 30 * 60 * 1000 :: real\<bar> \<le> 8640000000000000"
    using assms(6) by linarith
  ultimately have e: "newDate (Some (of_int (trunc (t * 1000)) + 30 * 60 * 1000))
      = Some (trunc (t * 1000) + 1800000)"
    by (simp add: newDate_def)
  show ?thesis
    using assms(1-4) s e by (simp add: getWarnings_def exceeds_def numOf_def Let_def)
qed

text \<open>
  The record of a strike at epoch 1,700,000,000 s gives a warning to a query 29 min 59 s
  later and none to a query 30 min 1 s later.
\<close>

theorem getWarnings_lightning_window_witness:
  "map_of (latestObservations strikeState) ''tempest''
     = Some (strikeRecord(''timestamp'' \<mapsto> Iso 1700000000500))
   \<and> (strikeRecord(''timestamp'' \<mapsto> Iso 1700000000500)) ''lightningStrikeCount'' = Some (Num 3)
   \<and> (strikeRecord(''timestamp'' \<mapsto> Iso 1700000000500)) ''timeEpoch'' = Some (Num 1700000000)
   \<and> (strikeRecord(''timestamp'' \<mapsto> Iso 1700000000500)) ''lightningStrikeAvgDistance''
       = Some (Num 12400.6)
   \<and> \<bar>1700000000 * 1000 :: real\<bar> \<le> 8640000000000000
   \<and> \<bar>trunc (1700000000 * 1000) + 1800000\<bar> \<le> 8640000000000000
   \<and> getWarnings strikeState (1700000000000 + 1799000) =
       [\<lparr>startTime = 1700000000000, endTime = 1700001800000,
         details = [Lit ''Lightning activity detected. '', Shown (Num 3),
                    Lit '' strikes recorded. Last strike at average distance of '',
                    ShownInt 12401, Lit ''m.''],
         source = ''WeatherFlow Station'', warningType = ''lightning''\<rparr>]
   \<and> getWarnings strikeState (1700000000000 + 1801000) = []"
proof -
  let ?r = "strikeRecord(''timestamp'' \<mapsto> Iso 1700000000500)"
  have h1: "map_of (latestObservations strikeState) ''tempest'' = Some ?r"
    by (simp add: strikeState_def cacheObservationData_def initialState_def)
  have h2: "?r ''lightningStrikeCount'' = Some (Num 3)"
    and h3: "?r ''timeEpoch'' = Some (Num 1700000000)"
    and h4: "?r ''lightningStrikeAvgDistance'' = Some (Num 12400.6)"
    by (simp_all add: strikeRecord_def)
  have h5: "\<bar>1700000000 * 1000 :: real\<bar> \<le> 8640000000000000"
    by simp
  have tr: "trunc 1700000000000 = 1700000000000"
    by (simp add: trunc_def)
  have h6: "\<bar>trunc (1700000000 * 1000) + 1800000\<bar> \<le> 8640000000000000"
    by (simp add: tr)
  have w1: "getWarnings strikeState (1700000000000 + 1799000) =
       [\<lparr>startTime = 1700000000000, endTime = 1700001800000,
         details = [Lit ''Lightning activity detected. '', Shown (Num 3),
                    Lit '' strikes recorded. Last strike at average distance of '',
                    ShownInt 12401, Lit ''m.''],
         source = ''WeatherFlow Station'', warningType = ''lightning''\<rparr>]"
    using getWarnings_lightning_window [OF h1 h2 h3 h4 h5 h6, of "1700000000000 + 1799000"]
    by (simp add: tr math_round_def)
  have w2: "getWarnings strikeState (1700000000000 + 1801000) = []"
    using getWarnings_lightning_window [OF h1 h2 h3 h4 h5 h6, of "1700000000000 + 1801000"]
    by (simp add: tr)
  from h1 h2 h3 h4 h5 h6 w1 w2 show ?thesis
    by (intro conjI)
qed

section \<open>Observation queries\<close>

text \<open>
  C9. Two calls of \<open>getObservations\<close> on the same cache, with the same options and at
  the same clock reading, return the same result whatever the two requested positions
  are: the position is not read.
\<close>

theorem getObservations_ignores_position:
  "getObservations st position1 options now = getObservations st position2 options now"
  by (simp add: getObservations_def)

section \<open>Unit conversion\<close>

text \<open>
  C7. For every field name whose camel-case form is one of the temperature fields,
  \<open>convertToSignalKUnits\<close> maps 0 to 273.15 with unit K; for every pressure field it
  maps 1013.25 to 101325 with unit Pa; for the wind direction it maps 180 to \<open>\<pi>\<close> with
  unit rad. The function has the field name and the value as its only arguments.
\<close>

theorem convert_round_trip:
  "(snakeToCamel f \<in> set temperatureFields \<longrightarrow>
      convertToSignalKUnits f (Some (Num 0))
        = \<lparr>cv_value = Some (Num 273.15), cv_units = Some ''K''\<rparr>)
   \<and> (snakeToCamel f \<in> set pressureFields \<longrightarrow>
      convertToSignalKUnits f (Some (Num 1013.25))
        = \<lparr>cv_value = Some (Num 101325), cv_units = Some ''Pa''\<rparr>)
   \<and> (snakeToCamel f = ''windDirection'' \<longrightarrow>
      convertToSignalKUnits f (Some (Num 180))
        = \<lparr>cv_value = Some (Num pi), cv_units = Some ''rad''\<rparr>)"
  by (auto simp add: convertToSignalKUnits_def Let_def arith_def numOf_def
      temperatureFields_def pressureFields_def)

theorem convert_round_trip_witness:
  "snakeToCamel ''air_temperature'' \<in> set temperatureFields
   \<and> convertToSignalKUnits ''air_temperature'' (Some (Num 0))
       = \<lparr>cv_value = Some (Num 273.15), cv_units = Some ''K''\<rparr>
   \<and> snakeToCamel ''station_pressure'' \<in> set pressureFields
   \<and> convertToSignalKUnits ''station_pressure'' (Some (Num 1013.25))
       = \<lparr>cv_value = Some (Num 101325), cv_units = Some ''Pa''\<rparr>
   \<and> snakeToCamel ''wind_direction'' = ''windDirection''
   \<and> convertToSignalKUnits ''wind_direction'' (Some (Num 180))
       = \<lparr>cv_value = Some (Num pi), cv_units = Some ''rad''\<rparr>"
proof -
  have a: "snakeToCamel ''air_temperature'' \<in> set temperatureFields"
    by (simp only: snake_examples) (simp add: temperatureFields_def)
  have b: "snakeToCamel ''station_pressure'' \<in> set pressureFields"
    by (simp only: snake_examples) (simp add: pressureFields_def)
  have c: "snakeToCamel ''wind_direction'' = ''windDirection''"
    by (simp only: snake_examples)
  note A = convert_round_trip [of "''air_temperature''", THEN conjunct1, rule_format, OF a]
  note B = convert_round_trip [of "''station_pressure''", THEN conjunct2, THEN conjunct1,
      rule_format, OF b]
  note C = convert_round_trip [of "''wind_direction''", THEN conjunct2, THEN conjunct2,
      rule_format, OF c]
  from a A b B c C show ?thesis
    by (intro conjI)
qed

section \<open>Apparent wind\<close>

text \<open>
  C8. The claim: the \<open>airTemperature\<close> of the apparent wind is the override of the
  sample whenever one is given, the value 0 included, and the stored air temperature
  otherwise.
  The source selects with \<open>||\<close>, which takes 0 for absent: a sample with air
  temperature 0, against a stored air temperature of 15, yields 15.
\<close>

theorem apparent_airTemperature_zero_override:
  "wi_airTemperature freezingOverride = Some 0
   \<and> airTemperature (calculateApparentWind (initialWindCalculations\<lparr>airTemp := 15\<rparr>)
        freezingOverride) = 15"
  by (simp add: calculateApparentWind_def initialWindCalculations_def freezingOverride_def
      truthy_opt_def truthy_def Let_def)

section \<open>Derived wind\<close>




text \<open>
  C6. The claim: at zero speed over ground the true wind speed is the apparent wind
  speed and the true wind bearing is the absolute bearing of the apparent wind, in both
  frames alike when the two headings agree.
  In a calm the wind vector is (0, 0), whose \<open>atan2\<close> is 0: for a sample of speed 0
  taken abeam the apparent bearing is \<open>\<pi>/2\<close> and the true wind bearing is 0.
\<close>

theorem true_wind_calm_counterexample:
  "effectiveSOG initialWindCalculations = 0
   \<and> apparentTrueRad (calculateApparentWind initialWindCalculations calmWind) = pi / 2
   \<and> map_option directionTrue
        (calculateDerivedWindValues exactArithmetic initialWindCalculations
           (calculateApparentWind initialWindCalculations calmWind)) = Some 0
   \<and> map_option directionTrue
        (calculateDerivedWindValues exactArithmetic initialWindCalculations
           (calculateApparentWind initialWindCalculations calmWind))
       \<noteq> Some (apparentTrueRad (calculateApparentWind initialWindCalculations calmWind))"
proof -
  obtain d where d: "calculateDerivedWindValues exactArithmetic initialWindCalculations
      (calculateApparentWind initialWindCalculations calmWind) = Some d"
    using derived_exact_returns by blast
  have b: "apparentTrueRad (calculateApparentWind initialWindCalculations calmWind) = pi / 2"
    by (simp add: apparent_heading_zero initial_fields calmWind_def)
  have z: "directionTrue d = 0"
    using derived_fields(3) [OF d]
    by (simp add: apparent_heading_zero initial_fields calmWind_def atan2_def toCompassBearing_def)
  have r1: "map_option directionTrue
        (calculateDerivedWindValues exactArithmetic initialWindCalculations
           (calculateApparentWind initialWindCalculations calmWind)) = Some 0"
    using d z by simp
  have r2: "map_option directionTrue
        (calculateDerivedWindValues exactArithmetic initialWindCalculations
           (calculateApparentWind initialWindCalculations calmWind))
       \<noteq> Some (apparentTrueRad (calculateApparentWind initialWindCalculations calmWind))"
    unfolding r1 b using pi_gt_zero by simp
  from initial_fields(4) b r1 r2 show ?thesis
    by (intro conjI)
qed

text \<open>
  C6, as amended: at zero speed over ground, for an apparent wind of positive speed
  whose absolute bearings lie in \<open>[0, 2\<pi>)\<close>, the true wind speed is the apparent wind
  speed and the true wind bearing is the absolute bearing of the apparent wind, in the
  true and in the magnetic frame; and when the two headings and the two bearings agree,
  so do the two frames. The arithmetic is exact.
\<close>

theorem true_wind_zero_sog:
  assumes "effectiveSOG st = 0" and "0 < windSpeed aw"
    and "0 \<le> apparentTrueRad aw" and "apparentTrueRad aw < 2 * pi"
    and "0 \<le> apparentMagneticRad aw" and "apparentMagneticRad aw < 2 * pi"
  shows "\<exists>d. calculateDerivedWindValues exactArithmetic st aw = Some d
    \<and> speedTrue d = windSpeed aw
    \<and> directionTrue d = apparentTrueRad aw
    \<and> directionMagnetic d = apparentMagneticRad aw
    \<and> (headingTrue st = headingMagnetic st \<and> apparentTrueRad aw = apparentMagneticRad aw
        \<longrightarrow> directionTrue d = directionMagnetic d \<and> angleTrueGround d = angleTrueWater d)"
proof -
  obtain d where d: "calculateDerivedWindValues exactArithmetic st aw = Some d"
    using derived_exact_returns by blast
  note f = derived_fields [OF d]
  have s: "speedTrue d = windSpeed aw"
    using assms(1,2) by (simp add: f(2) magnitude_polar)
  have t: "directionTrue d = apparentTrueRad aw"
    using assms(1-4) by (simp add: f(3) compass_polar)
  have m: "directionMagnetic d = apparentMagneticRad aw"
    using assms(1,2,5,6) by (simp add: f(4) compass_polar)
  have fr: "headingTrue st = headingMagnetic st \<and> apparentTrueRad aw = apparentMagneticRad aw
        \<longrightarrow> directionTrue d = directionMagnetic d \<and> angleTrueGround d = angleTrueWater d"
  proof
    assume e: "headingTrue st = headingMagnetic st \<and> apparentTrueRad aw = apparentMagneticRad aw"
    then have hh: "effectiveHeadingTrueRad st = effectiveHeadingMagneticRad st"
      by (simp add: effectiveHeadingTrueRad_def effectiveHeadingMagneticRad_def)
    from e t m have dd: "directionTrue d = directionMagnetic d"
      by simp
    from f(6) f(7) hh dd have "Some (angleTrueGround d) = Some (angleTrueWater d)"
      by simp
    with dd show "directionTrue d = directionMagnetic d \<and> angleTrueGround d = angleTrueWater d"
      by simp
  qed
  from d s t m fr show ?thesis
    by blast
qed

theorem true_wind_zero_sog_witness:
  "effectiveSOG initialWindCalculations = 0
   \<and> 0 < windSpeed (calculateApparentWind initialWindCalculations breeze)
   \<and> 0 \<le> apparentTrueRad (calculateApparentWind initialWindCalculations breeze)
   \<and> apparentTrueRad (calculateApparentWind initialWindCalculations breeze) < 2 * pi
   \<and> 0 \<le> apparentMagneticRad (calculateApparentWind initialWindCalculations breeze)
   \<and> apparentMagneticRad (calculateApparentWind initialWindCalculations breeze) < 2 * pi
   \<and> headingTrue initialWindCalculations = headingMagnetic initialWindCalculations
   \<and> apparentTrueRad (calculateApparentWind initialWindCalculations breeze)
       = apparentMagneticRad (calculateApparentWind initialWindCalculations breeze)
   \<and> (\<exists>d. calculateDerivedWindValues exactArithmetic initialWindCalculations
             (calculateApparentWind initialWindCalculations breeze) = Some d
        \<and> speedTrue d = 5 \<and> directionTrue d = pi / 2 \<and> directionMagnetic d = pi / 2
        \<and> angleTrueGround d = angleTrueWater d)"
proof -
  let ?aw = "calculateApparentWind initialWindCalculations breeze"
  have t: "apparentTrueRad ?aw = pi / 2" and m: "apparentMagneticRad ?aw = pi / 2"
    and w: "windSpeed ?aw = 5"
    by (simp_all add: apparent_heading_zero initial_fields breeze_def)
  have h: "headingTrue initialWindCalculations = headingMagnetic initialWindCalculations"
    by (simp add: initial_fields)
  have g1: "0 < windSpeed ?aw"
    by (simp add: w)
  have g2: "0 \<le> apparentTrueRad ?aw" and g3: "apparentTrueRad ?aw < 2 * pi"
    and g4: "0 \<le> apparentMagneticRad ?aw" and g5: "apparentMagneticRad ?aw < 2 * pi"
    using pi_gt_zero by (simp_all add: t m)
  from true_wind_zero_sog [OF initial_fields(4) g1 g2 g3 g4 g5]
  obtain d where d: "calculateDerivedWindValues exactArithmetic initialWindCalculations ?aw = Some d"
    "speedTrue d = windSpeed ?aw" "directionTrue d = apparentTrueRad ?aw"
    "directionMagnetic d = apparentMagneticRad ?aw"
    "headingTrue initialWindCalculations = headingMagnetic initialWindCalculations
       \<and> apparentTrueRad ?aw = apparentMagneticRad ?aw
     \<longrightarrow> directionTrue d = directionMagnetic d \<and> angleTrueGround d = angleTrueWater d"
    by blast
  from d(5) h t m have "angleTrueGround d = angleTrueWater d"
    by simp
  with d(1-4) have ex: "\<exists>d. calculateDerivedWindValues exactArithmetic initialWindCalculations ?aw = Some d
        \<and> speedTrue d = 5 \<and> directionTrue d = pi / 2 \<and> directionMagnetic d = pi / 2
        \<and> angleTrueGround d = angleTrueWater d"
    by (simp add: t m w)
  have tm: "apparentTrueRad ?aw = apparentMagneticRad ?aw"
    by (simp add: t m)
  from initial_fields(4) g1 g2 g3 g4 g5 h tm ex show ?thesis
    by (intro conjI)
qed

text \<open>
  C10. The claim: for every finite input the three angles relative to the vessel lie in
  \<open>[-\<pi>, \<pi>]\<close> and the two compass bearings in \<open>[0, 2\<pi>)\<close>.
  For a wind direction of 1e20 degrees the angle to normalise is a double from which a
  full turn no longer subtracts: the first loop of \<open>normalizeAngle\<close> never ends and
  the derivation returns nothing. And for a wind direction of -1e-15 degrees the raw
  true wind direction is negative and so small that the full turn added to it rounds to
  \<open>2\<pi>\<close> itself: the bearing is \<open>2\<pi>\<close>, outside the half-open interval.
\<close>

theorem normalizeAngle_absorbed:
  "calculateDerivedWindValues absorbing initialWindCalculations
     (calculateApparentWind initialWindCalculations hugeDirection) = None
   \<and> map_option directionTrue
       (calculateDerivedWindValues absorbing initialWindCalculations
          (calculateApparentWind initialWindCalculations justLeftOfBow)) = Some (2 * pi)"
proof
  have tr: "truthy (10 ^ 20 * pi / 180)"
    by (simp add: truthy_def)
  show "calculateDerivedWindValues absorbing initialWindCalculations
     (calculateApparentWind initialWindCalculations hugeDirection) = None"
    by (intro derived_stuck) (simp only: hugeDirection_angle tr if_True huge_stuck)
next
  let ?aw = "calculateApparentWind initialWindCalculations justLeftOfBow"
  let ?b = "- (pi / 180000000000000000) :: real"
  have dir: "\<bar>wi_windDirection justLeftOfBow\<bar> < 360"
    by (simp add: justLeftOfBow_def)
  note ap = apparent_heading_zero [OF initial_fields(1) initial_fields(2) dir]
  have w: "windSpeed ?aw = 5" and rel: "windAngleRelativeRad ?aw = ?b"
    and t: "apparentTrueRad ?aw = ?b" and m: "apparentMagneticRad ?aw = ?b"
    unfolding ap by (simp_all add: justLeftOfBow_def)
  have a: "atan2 (5 * sin ?b) (5 * cos ?b) = ?b"
    by (rule atan2_polar [OF _ tiny_angle(3) tiny_angle(4)]) simp
  have c: "toCompassBearing absorbing ?b = 2 * pi"
    using tiny_angle by (simp add: toCompassBearing_def absorbing_def)
  have lo: "- pi \<le> ?b"
    using tiny_angle(3) by linarith
  have n1: "normalizeAngle absorbing ?b = Some ?b"
    by (rule normalizeAngle_id [OF lo tiny_angle(4)])
  have "\<exists>d. calculateDerivedWindValues absorbing initialWindCalculations ?aw = Some d"
  proof (rule derived_returns)
    show "normalizeAngle absorbing
           (if truthy (windAngleRelativeRad ?aw) then windAngleRelativeRad ?aw
            else apparentTrueRad ?aw - effectiveHeadingTrueRad initialWindCalculations) \<noteq> None"
      by (simp add: rel t initial_fields n1)
  next
    show "normalizeAngle absorbing
           (toCompassBearing absorbing
              (atan2 (windSpeed ?aw * sin (apparentTrueRad ?aw)
                        + effectiveSOG initialWindCalculations
                            * sin (effectiveHeadingTrueRad initialWindCalculations))
                     (windSpeed ?aw * cos (apparentTrueRad ?aw)
                        + effectiveSOG initialWindCalculations
                            * cos (effectiveHeadingTrueRad initialWindCalculations)))
            - effectiveHeadingTrueRad initialWindCalculations) \<noteq> None"
      by (simp only: w t initial_fields mult_zero_left add_0_right a c diff_zero
          full_turn_absorbing) simp
  next
    show "normalizeAngle absorbing
           (toCompassBearing absorbing
              (atan2 (windSpeed ?aw * sin (apparentMagneticRad ?aw)
                        + effectiveSOG initialWindCalculations
                            * sin (effectiveHeadingMagneticRad initialWindCalculations))
                     (windSpeed ?aw * cos (apparentMagneticRad ?aw)
                        + effectiveSOG initialWindCalculations
                            * cos (effectiveHeadingMagneticRad initialWindCalculations)))
            - effectiveHeadingMagneticRad initialWindCalculations) \<noteq> None"
      by (simp only: w m initial_fields mult_zero_left add_0_right a c diff_zero
          full_turn_absorbing) simp
  qed
  then obtain d where d: "calculateDerivedWindValues absorbing initialWindCalculations ?aw = Some d"
    by blast
  have "directionTrue d = 2 * pi"
    using derived_fields(3) [OF d]
    by (simp only: w t initial_fields mult_zero_left add_0_right a c)
  with d show "map_option directionTrue
       (calculateDerivedWindValues absorbing initialWindCalculations ?aw) = Some (2 * pi)"
    by simp
qed

text \<open>
  C10, as amended: when the angles handed to \<open>normalizeAngle\<close> are of a magnitude at
  which a full turn registers (the relative wind angle, the apparent bearing less the
  heading, and the headings plus a full turn, all at most \<open>B\<close>), the derivation
  returns, the three angles relative to the vessel lie in \<open>[-\<pi>, \<pi>]\<close>, and the two
  compass bearings lie in the closed interval \<open>[0, 2\<pi>]\<close>. The rounding of the
  example above is one that meets the two hypotheses, for angles up to 100.
\<close>

theorem derived_angles_in_range:
  assumes t: "turnsRegister fl B d" and b: "bearingRounds fl"
    and r: "\<bar>windAngleRelativeRad aw\<bar> \<le> B"
    and a: "\<bar>apparentTrueRad aw - effectiveHeadingTrueRad st\<bar> \<le> B"
    and hT: "\<bar>effectiveHeadingTrueRad st\<bar> + 2 * pi \<le> B"
    and hM: "\<bar>effectiveHeadingMagneticRad st\<bar> + 2 * pi \<le> B"
  shows "\<exists>v. calculateDerivedWindValues fl st aw = Some v
    \<and> - pi \<le> angleApparent v \<and> angleApparent v \<le> pi
    \<and> - pi \<le> angleTrueGround v \<and> angleTrueGround v \<le> pi
    \<and> - pi \<le> angleTrueWater v \<and> angleTrueWater v \<le> pi
    \<and> 0 \<le> directionTrue v \<and> directionTrue v \<le> 2 * pi
    \<and> 0 \<le> directionMagnetic v \<and> directionMagnetic v \<le> 2 * pi"
proof -
  let ?x1 = "if truthy (windAngleRelativeRad aw) then windAngleRelativeRad aw
            else apparentTrueRad aw - effectiveHeadingTrueRad st"
  let ?cT = "toCompassBearing fl
              (atan2 (windSpeed aw * sin (apparentTrueRad aw)
                        + effectiveSOG st * sin (effectiveHeadingTrueRad st))
                     (windSpeed aw * cos (apparentTrueRad aw)
                        + effectiveSOG st * cos (effectiveHeadingTrueRad st)))"
  let ?cM = "toCompassBearing fl
              (atan2 (windSpeed aw * sin (apparentMagneticRad aw)
                        + effectiveSOG st * sin (effectiveHeadingMagneticRad st))
                     (windSpeed aw * cos (apparentMagneticRad aw)
                        + effectiveSOG st * cos (effectiveHeadingMagneticRad st)))"
  have cT: "0 \<le> ?cT \<and> ?cT \<le> 2 * pi"
    using atan2_range by (intro toCompassBearing_range [OF b]) blast+
  have cM: "0 \<le> ?cM \<and> ?cM \<le> 2 * pi"
    using atan2_range by (intro toCompassBearing_range [OF b]) blast+
  have "\<bar>?x1\<bar> \<le> B"
    using r a by simp
  from normalizeAngle_returns [OF t this]
  obtain a1 where a1: "normalizeAngle fl ?x1 = Some a1" "- pi \<le> a1" "a1 \<le> pi"
    by blast
  have "\<bar>?cT - effectiveHeadingTrueRad st\<bar> \<le> B"
    using cT hT by linarith
  from normalizeAngle_returns [OF t this]
  obtain a2 where a2: "normalizeAngle fl (?cT - effectiveHeadingTrueRad st) = Some a2"
      "- pi \<le> a2" "a2 \<le> pi"
    by blast
  have "\<bar>?cM - effectiveHeadingMagneticRad st\<bar> \<le> B"
    using cM hM by linarith
  from normalizeAngle_returns [OF t this]
  obtain a3 where a3: "normalizeAngle fl (?cM - effectiveHeadingMagneticRad st) = Some a3"
      "- pi \<le> a3" "a3 \<le> pi"
    by blast
  have "\<exists>v. calculateDerivedWindValues fl st aw = Some v"
    by (rule derived_returns) (simp_all only: a1(1) a2(1) a3(1) option.distinct not_False_eq_True)
  then obtain v where v: "calculateDerivedWindValues fl st aw = Some v"
    by blast
  note f = derived_fields [OF v]
  from f(3) have dT: "directionTrue v = ?cT" .
  from f(4) have dM: "directionMagnetic v = ?cM" .
  from f(5) a1(1) have e1: "angleApparent v = a1"
    by simp
  from f(6) a2(1) have e2: "angleTrueGround v = a2"
    by (simp add: dT)
  from f(7) a3(1) have e3: "angleTrueWater v = a3"
    by (simp add: dM)
  from v a1(2,3) a2(2,3) a3(2,3) cT cM show ?thesis
    by (simp add: e1 e2 e3 dT dM)
qed

theorem derived_angles_in_range_witness:
  "turnsRegister absorbing 100 (2 * pi)
   \<and> bearingRounds absorbing
   \<and> \<bar>windAngleRelativeRad (calculateApparentWind initialWindCalculations breeze)\<bar> \<le> 100
   \<and> \<bar>apparentTrueRad (calculateApparentWind initialWindCalculations breeze)
        - effectiveHeadingTrueRad initialWindCalculations\<bar> \<le> 100
   \<and> \<bar>effectiveHeadingTrueRad initialWindCalculations\<bar> + 2 * pi \<le> 100
   \<and> \<bar>effectiveHeadingMagneticRad initialWindCalculations\<bar> + 2 * pi \<le> 100
   \<and> (\<exists>v. calculateDerivedWindValues absorbing initialWindCalculations
             (calculateApparentWind initialWindCalculations breeze) = Some v
        \<and> - pi \<le> angleApparent v \<and> angleApparent v \<le> pi
        \<and> - pi \<le> angleTrueGround v \<and> angleTrueGround v \<le> pi
        \<and> - pi \<le> angleTrueWater v \<and> angleTrueWater v \<le> pi
        \<and> 0 \<le> directionTrue v \<and> directionTrue v \<le> 2 * pi
        \<and> 0 \<le> directionMagnetic v \<and> directionMagnetic v \<le> 2 * pi)"
proof -
  let ?aw = "calculateApparentWind initialWindCalculations breeze"
  have dir: "\<bar>wi_windDirection breeze\<bar> < 360"
    by (simp add: breeze_def)
  note ap = apparent_heading_zero [OF initial_fields(1) initial_fields(2) dir]
  have p: "pi / 2 \<le> 100" "2 * pi \<le> 100"
    using pi_less_4 by simp_all
  have h1: "\<bar>windAngleRelativeRad ?aw\<bar> \<le> 100"
    unfolding ap using p pi_gt_zero by (simp add: breeze_def)
  have h2: "\<bar>apparentTrueRad ?aw - effectiveHeadingTrueRad initialWindCalculations\<bar> \<le> 100"
    unfolding ap using p pi_gt_zero by (simp add: breeze_def initial_fields)
  have h3: "\<bar>effectiveHeadingTrueRad initialWindCalculations\<bar> + 2 * pi \<le> 100"
    using p by (simp add: initial_fields)
  have h4: "\<bar>effectiveHeadingMagneticRad initialWindCalculations\<bar> + 2 * pi \<le> 100"
    using p by (simp add: initial_fields)
  note res = derived_angles_in_range [OF absorbing_turnsRegister absorbing_bearingRounds h1 h2 h3 h4]
  from absorbing_turnsRegister absorbing_bearingRounds h1 h2 h3 h4 res show ?thesis
    by (intro conjI)
qed

end
